theory Spec2Isabelle
  imports Main "HOL-Library.Word" "HOL-Library.AList" "HOL-Library.Log_Nat"
begin

section \<open>FancyZones editor parameters: the snapshot written by \<open>EditorParameters::Save\<close>\<close>

text \<open>
  The development embeds \<^verbatim>\<open>FancyZonesLib/EditorParameters.cpp\<close>. The file holds the two
  JSON helper structs and the function \<^verbatim>\<open>EditorParameters::Save\<close>. Everything \<open>Save\<close>
  asks of the operating system, of the settings and of helpers declared in other files is a
  field of the record \<open>world\<close>; what \<open>Save\<close> changes (the log, the parameter file, the DPI
  context of the threads involved) is a field of the record \<open>sys\<close>, passed in and returned.

  Conventions. A \<^verbatim>\<open>LONG\<close> or \<^verbatim>\<open>int\<close> value is the integer it denotes, in the 32-bit
  signed range. A subtraction of two such values gives the two's-complement result
  (\<open>int32\<close>), which is the difference itself where the difference is in range; beyond
  the range C++ leaves the result undefined and the compiled code wraps around.
  \<^verbatim>\<open>DWORD\<close> and \<^verbatim>\<open>UINT\<close> are 32-bit words. A finite \<^verbatim>\<open>float\<close> is the rational
  number it denotes; NaN and the infinities are outside the model.
\<close>

subsection \<open>Windows data\<close>

type_synonym HMONITOR = nat  \<comment> \<open>a handle; \<open>0\<close> is the null handle\<close>
type_synonym HWND = nat
type_synonym POINT = "int \<times> int"
type_synonym HRESULT = int
type_synonym DWORD = "32 word"
type_synonym UINT = "32 word"
type_synonym float = rat

definition S_OK :: HRESULT where
  "S_OK = 0"

definition fits_int32 :: "int \<Rightarrow> bool" where
  \<comment> \<open>the range of \<^verbatim>\<open>int\<close> and \<^verbatim>\<open>LONG\<close>\<close>
  "fits_int32 x = (- 2147483648 \<le> x \<and> x \<le> 2147483647)"

definition int32 :: "int \<Rightarrow> int" where
  \<comment> \<open>the 32-bit signed value of an arithmetic result: wrap-around modulo \<open>2 ^ 32\<close>\<close>
  "int32 x = (x + 2147483648) mod 4294967296 - 2147483648"

record RECT =
  left_rc :: int
  top_rc :: int
  right_rc :: int
  bottom_rc :: int

record MONITORINFOEX =
  rcMonitor :: RECT
  rcWork :: RECT
  szDevice :: string

datatype DPI_AWARENESS_CONTEXT =
    DPI_AWARENESS_CONTEXT_UNAWARE
  | DPI_AWARENESS_CONTEXT_SYSTEM_AWARE
  | DPI_AWARENESS_CONTEXT_PER_MONITOR_AWARE
  | DPI_AWARENESS_CONTEXT_PER_MONITOR_AWARE_V2
  | DPI_AWARENESS_CONTEXT_UNAWARE_GDISCALED

datatype DPI_HOSTING_BEHAVIOR =
    DPI_HOSTING_BEHAVIOR_DEFAULT
  | DPI_HOSTING_BEHAVIOR_MIXED

record thread_dpi =
  awareness :: DPI_AWARENESS_CONTEXT
  hosting :: DPI_HOSTING_BEHAVIOR

text \<open>
  Modelled from the spec: \<^verbatim>\<open>OnThreadExecutor\<close> (\<^verbatim>\<open>FancyZonesLib/on_thread_executor.h\<close>,
  not part of the sources at hand) is the "isolated single-purpose execution context" that
  runs the tasks submitted to it, "blocking the caller until that context reports
  completion". The two threads of one call are the thread that calls \<open>Save\<close> and the thread
  owned by the local \<^verbatim>\<open>OnThreadExecutor dpiUnawareThread\<close>. A task given to the executor
  with \<^verbatim>\<open>submit(...).wait()\<close> runs on the executor's thread while the caller waits, so
  the model runs it in place, on the thread \<open>dpiUnawareThread\<close>; a statement of \<open>Save\<close>
  outside such a task runs on \<open>callerThread\<close>.
\<close>

datatype thread = callerThread | dpiUnawareThread

datatype enum_fn =
    GetAllMonitorInfo_rcWork
  | GetAllMonitorsCombinedRect_rcWork
  | GetAllMonitorsCombinedRect_rcMonitor

record enum_event =
  ev_fn :: enum_fn
  ev_thread :: thread
  ev_dpi :: thread_dpi

subsection \<open>JSON values and the two helper structs\<close>

datatype json =
    JsonNumber int
  | JsonString string
  | JsonBoolean bool
  | JsonArray "json list"
  | JsonObject "(string \<times> json) list"

record MonitorInfo =
  monitorName :: string
  virtualDesktop :: string
  dpi :: int
  top_mi :: int
  left_mi :: int
  workAreaWidth :: int
  workAreaHeight :: int
  monitorWidth :: int
  monitorHeight :: int
  isSelected :: bool

record EditorArgs =
  processId :: DWORD
  spanZonesAcrossMonitors :: bool
  monitors :: "MonitorInfo list"

text \<open>
  Modelled from the spec: the member names \<^verbatim>\<open>NonLocalizable::EditorParametersIds::*\<close> are
  declared in \<^verbatim>\<open>EditorParameters.h\<close>, which is not part of the sources at hand; the
  values are the field identifiers of the file record shape of the specification.
\<close>

definition ProcessId :: string where "ProcessId = ''process-id''"
definition SpanZonesAcrossMonitors :: string where "SpanZonesAcrossMonitors = ''span-zones-across-monitors''"
definition Monitors :: string where "Monitors = ''monitors''"
definition MonitorNameId :: string where "MonitorNameId = ''monitor-name''"
definition VirtualDesktopId :: string where "VirtualDesktopId = ''virtual-desktop''"
definition Dpi :: string where "Dpi = ''dpi''"
definition TopCoordinate :: string where "TopCoordinate = ''top''"
definition LeftCoordinate :: string where "LeftCoordinate = ''left''"
definition WorkAreaWidth :: string where "WorkAreaWidth = ''work-area-width''"
definition WorkAreaHeight :: string where "WorkAreaHeight = ''work-area-height''"
definition MonitorWidth :: string where "MonitorWidth = ''monitor-width''"
definition MonitorHeight :: string where "MonitorHeight = ''monitor-height''"
definition IsSelected :: string where "IsSelected = ''is-selected''"

definition SetNamedValue :: "string \<Rightarrow> json \<Rightarrow> (string \<times> json) list \<Rightarrow> (string \<times> json) list" where
  \<comment> \<open>the member is replaced where the object has it, added otherwise\<close>
  "SetNamedValue k v obj = AList.update k v obj"

definition MonitorInfo_ToJson :: "MonitorInfo \<Rightarrow> json" where
  "MonitorInfo_ToJson monitor =
     JsonObject
       (SetNamedValue IsSelected (JsonBoolean (isSelected monitor))
       (SetNamedValue MonitorHeight (JsonNumber (monitorHeight monitor))
       (SetNamedValue MonitorWidth (JsonNumber (monitorWidth monitor))
       (SetNamedValue WorkAreaHeight (JsonNumber (workAreaHeight monitor))
       (SetNamedValue WorkAreaWidth (JsonNumber (workAreaWidth monitor))
       (SetNamedValue LeftCoordinate (JsonNumber (left_mi monitor))
       (SetNamedValue TopCoordinate (JsonNumber (top_mi monitor))
       (SetNamedValue Dpi (JsonNumber (dpi monitor))
       (SetNamedValue VirtualDesktopId (JsonString (virtualDesktop monitor))
       (SetNamedValue MonitorNameId (JsonString (monitorName monitor)) []))))))))))"

definition EditorArgs_ToJson :: "EditorArgs \<Rightarrow> json" where
  "EditorArgs_ToJson args =
     JsonObject
       (SetNamedValue Monitors (JsonArray (map MonitorInfo_ToJson (monitors args)))
       (SetNamedValue SpanZonesAcrossMonitors (JsonBoolean (spanZonesAcrossMonitors args))
       (SetNamedValue ProcessId (JsonNumber (uint (processId args))) [])))"

subsection \<open>The collaborators of \<open>Save\<close>\<close>

text \<open>
  One field for each answer \<open>Save\<close> obtains from outside the file: calls of the Windows
  API, the settings, and functions and constants of the repository that are declared in
  other files and are not part of the sources at hand (\<^verbatim>\<open>GuidToString\<close>,
  \<^verbatim>\<open>DPIAware::GetScreenDPIForMonitor\<close>, \<^verbatim>\<open>DPIAware::Convert\<close>,
  \<^verbatim>\<open>ZonedWindowProperties::MultiMonitorDeviceID\<close>, \<^verbatim>\<open>FancyZonesUtils::TrimDeviceId\<close>,
  \<^verbatim>\<open>PTSettingsHelper::get_module_save_folder_location\<close>). These are parameters: nothing is
  assumed of them beyond their types. What the system reports of the monitors depends on
  the DPI context of the thread that asks, so the enumeration takes that context.
\<close>

record world =
  \<comment> \<open>\<^verbatim>\<open>FancyZonesUtils::GuidToString(VirtualDesktop::instance().GetCurrentVirtualDesktopId())\<close>\<close>
  GuidToString_GetCurrentVirtualDesktopId :: "string option"
  \<comment> \<open>\<^verbatim>\<open>FancyZonesSettings::settings()\<close>\<close>
  settings_spanZonesAcrossMonitors :: bool
  settings_use_cursorpos_editor_startupscreen :: bool
  GetCurrentProcessId :: DWORD
  \<comment> \<open>the monitors and their rectangles as the system reports them to a thread in a given DPI context\<close>
  EnumDisplayMonitors :: "thread_dpi \<Rightarrow> (HMONITOR \<times> MONITORINFOEX) list"
  GetCursorPos :: POINT
  MonitorFromPoint :: "POINT \<Rightarrow> HMONITOR"  \<comment> \<open>with \<^verbatim>\<open>MONITOR_DEFAULTTOPRIMARY\<close>\<close>
  GetForegroundWindow :: HWND
  MonitorFromWindow :: "HWND \<Rightarrow> HMONITOR"  \<comment> \<open>with \<^verbatim>\<open>MONITOR_DEFAULTTOPRIMARY\<close>\<close>
  \<comment> \<open>\<^verbatim>\<open>DPIAware::GetScreenDPIForMonitor\<close>: the result code and the value left in \<^verbatim>\<open>dpi\<close>\<close>
  GetScreenDPIForMonitor :: "HMONITOR \<Rightarrow> HRESULT \<times> UINT"
  \<comment> \<open>\<^verbatim>\<open>DPIAware::Convert\<close>: the values left in \<^verbatim>\<open>width\<close> and \<^verbatim>\<open>height\<close>\<close>
  Convert :: "HMONITOR \<Rightarrow> float \<times> float \<Rightarrow> float \<times> float"
  \<comment> \<open>\<^verbatim>\<open>ZonedWindowProperties::MultiMonitorDeviceID\<close>\<close>
  MultiMonitorDeviceID :: string
  \<comment> \<open>the index suffix of \<^verbatim>\<open>FancyZonesUtils::GetDisplayDeviceId\<close>\<close>
  index_suffix :: "nat \<Rightarrow> string"
  \<comment> \<open>\<^verbatim>\<open>FancyZonesUtils::TrimDeviceId\<close>\<close>
  TrimDeviceId :: "string \<Rightarrow> string"
  \<comment> \<open>\<^verbatim>\<open>PTSettingsHelper::get_module_save_folder_location(NonLocalizable::ModuleKey)\<close>\<close>
  get_module_save_folder_location :: string

record sys =
  thread_ctx :: "thread \<Rightarrow> thread_dpi"
  enum_trace :: "enum_event list"
  logged :: "string list"
  files :: "string \<rightharpoonup> json"

definition Logger_error :: "string \<Rightarrow> sys \<Rightarrow> sys" where
  "Logger_error msg s = s\<lparr>logged := logged s @ [msg]\<rparr>"

definition to_file :: "string \<Rightarrow> json \<Rightarrow> sys \<Rightarrow> sys" where
  "to_file fileName j s = s\<lparr>files := (files s)(fileName \<mapsto> j)\<rparr>"

definition SetThreadDpiAwarenessContext :: "thread \<Rightarrow> DPI_AWARENESS_CONTEXT \<Rightarrow> sys \<Rightarrow> sys" where
  "SetThreadDpiAwarenessContext t a s =
     s\<lparr>thread_ctx := (thread_ctx s)(t := (thread_ctx s t)\<lparr>awareness := a\<rparr>)\<rparr>"

definition SetThreadDpiHostingBehavior :: "thread \<Rightarrow> DPI_HOSTING_BEHAVIOR \<Rightarrow> sys \<Rightarrow> sys" where
  "SetThreadDpiHostingBehavior t h s =
     s\<lparr>thread_ctx := (thread_ctx s)(t := (thread_ctx s t)\<lparr>hosting := h\<rparr>)\<rparr>"

definition record_enum :: "enum_fn \<Rightarrow> thread \<Rightarrow> sys \<Rightarrow> sys" where
  "record_enum f t s =
     s\<lparr>enum_trace := enum_trace s @ [\<lparr>ev_fn = f, ev_thread = t, ev_dpi = thread_ctx s t\<rparr>]\<rparr>"

subsection \<open>Floating-point steps\<close>

text \<open>
  The three conversions of lines 182 to 187, on the rational values of finite floats:
  the cast of an \<^verbatim>\<open>int\<close> to \<^verbatim>\<open>float\<close> rounds to 24 significant bits,
  \<^verbatim>\<open>std::roundf\<close> gives the nearest integer value with halfway cases away from zero, the
  cast back to \<^verbatim>\<open>int\<close> discards the fractional part of a value in the range of \<^verbatim>\<open>int\<close>.
\<close>

definition static_cast_float :: "int \<Rightarrow> float" where
  \<comment> \<open>\<^verbatim>\<open>static_cast<float>(int)\<close>: exact up to 24 significant bits, nearest-even beyond\<close>
  "static_cast_float n =
     (let a = \<bar>n\<bar>; e = bitlen a - 24
      in if e \<le> 0 then of_int n
         else (let q = 2 ^ nat e; m = a div q; r = a mod q;
                   m' = (if q < 2 * r \<or> (2 * r = q \<and> odd m) then m + 1 else m)
               in of_int (sgn n * m' * q)))"

definition roundf :: "float \<Rightarrow> float" where
  \<comment> \<open>\<^verbatim>\<open>std::roundf\<close>: the nearest integer value, halfway cases away from zero\<close>
  "roundf x = (if 0 \<le> x then of_int \<lfloor>x + 1 / 2\<rfloor> else - of_int \<lfloor>- x + 1 / 2\<rfloor>)"

definition static_cast_int :: "float \<Rightarrow> int" where
  \<comment> \<open>\<^verbatim>\<open>static_cast<int>(float)\<close>: the fractional part is discarded; beyond the range of
      \<^verbatim>\<open>int\<close> C++ leaves the result undefined and the compiled code gives \<^verbatim>\<open>INT_MIN\<close>\<close>
  "static_cast_int x =
     (let n = (if 0 \<le> x then \<lfloor>x\<rfloor> else - \<lfloor>- x\<rfloor>)
      in if fits_int32 n then n else - 2147483648)"

subsection \<open>Helpers of \<^verbatim>\<open>FancyZonesUtils\<close>\<close>

text \<open>
  Modelled from the spec: \<^verbatim>\<open>FancyZonesUtils::GetAllMonitorInfo\<close> (\<^verbatim>\<open>FancyZonesLib/util.h\<close>,
  not part of the sources at hand) is the collector, "an ordered sequence of (monitorHandle,
  rawMonitorInfo)": what the system reports to the thread that runs the call.
\<close>

definition GetAllMonitorInfo :: "world \<Rightarrow> thread \<Rightarrow> sys \<Rightarrow> (HMONITOR \<times> MONITORINFOEX) list \<times> sys" where
  "GetAllMonitorInfo w t s =
     (EnumDisplayMonitors w (thread_ctx s t), record_enum GetAllMonitorInfo_rcWork t s)"

text \<open>
  Modelled from the spec: \<^verbatim>\<open>FancyZonesUtils::GetAllMonitorsCombinedRect\<close>
  (\<^verbatim>\<open>FancyZonesLib/util.h\<close>, not part of the sources at hand) is the union rectangle, "min of
  all lefts/tops, max of all rights/bottoms across the set", of the rectangles reported to
  the thread that runs the call. The spec says nothing of an empty set; the zero rectangle
  stands there.
\<close>

definition union_rect :: "RECT \<Rightarrow> RECT \<Rightarrow> RECT" where
  "union_rect rect result =
     \<lparr>left_rc = min (left_rc result) (left_rc rect),
      top_rc = min (top_rc result) (top_rc rect),
      right_rc = max (right_rc result) (right_rc rect),
      bottom_rc = max (bottom_rc result) (bottom_rc rect)\<rparr>"

fun combined_rect :: "RECT list \<Rightarrow> RECT" where
  "combined_rect [] = \<lparr>left_rc = 0, top_rc = 0, right_rc = 0, bottom_rc = 0\<rparr>"
| "combined_rect (rect # rects) = fold union_rect rects rect"

definition GetAllMonitorsCombinedRect ::
  "world \<Rightarrow> (MONITORINFOEX \<Rightarrow> RECT) \<Rightarrow> enum_fn \<Rightarrow> thread \<Rightarrow> sys \<Rightarrow> RECT \<times> sys" where
  "GetAllMonitorsCombinedRect w member f t s =
     (combined_rect (map (\<lambda>m. member (snd m)) (EnumDisplayMonitors w (thread_ctx s t))),
      record_enum f t s)"

text \<open>
  Modelled from the spec: \<^verbatim>\<open>FancyZonesUtils::GetDisplayDeviceId\<close> (\<^verbatim>\<open>FancyZonesLib/util.cpp\<close>,
  not part of the sources at hand) is the disambiguator: it "keeps a mapping from base
  device identifier to a running occurrence count" and "appends an index suffix on the
  second and later occurrence of the same base id". The map is the caller's
  \<^verbatim>\<open>displayDeviceIdxMap\<close>, updated in place; the text of the suffix is the collaborator
  \<open>index_suffix\<close>, indexed by the number of earlier occurrences.
\<close>

definition occurrence_count :: "(string \<rightharpoonup> nat) \<Rightarrow> string \<Rightarrow> nat" where
  "occurrence_count idx device = (case idx device of None \<Rightarrow> 0 | Some n \<Rightarrow> n)"

definition disambiguate :: "world \<Rightarrow> string \<Rightarrow> nat \<Rightarrow> string" where
  "disambiguate w device n = (if n = 0 then device else device @ index_suffix w n)"

definition GetDisplayDeviceId :: "world \<Rightarrow> string \<Rightarrow> (string \<rightharpoonup> nat) \<Rightarrow> string \<times> (string \<rightharpoonup> nat)" where
  "GetDisplayDeviceId w device idx =
     (let n = occurrence_count idx device
      in (disambiguate w device n, idx(device \<mapsto> Suc n)))"

subsection \<open>\<^verbatim>\<open>EditorParameters::Save\<close>\<close>

text \<open>
  One pass of the loop over \<^verbatim>\<open>allMonitors\<close> (lines 153 to 190). The state of the loop is
  \<^verbatim>\<open>displayDeviceIdxMap\<close> and \<^verbatim>\<open>argsJson.monitors\<close>. The device id is taken, and the map
  updated, before the DPI query; \<^verbatim>\<open>continue\<close> leaves the list as it is.
\<close>

definition monitorJson_of ::
  "world \<Rightarrow> string \<Rightarrow> HMONITOR \<Rightarrow> HMONITOR \<times> MONITORINFOEX \<Rightarrow> string \<Rightarrow> UINT \<Rightarrow> MonitorInfo" where
  \<comment> \<open>the fields of \<^verbatim>\<open>monitorJson\<close> at line 189, for the device id and the DPI value obtained\<close>
  "monitorJson_of w virtualDesktopIdStr targetMonitor monitorData deviceId dpi_out =
     (let monitor = fst monitorData;
          monitorInfo = snd monitorData;
          width = static_cast_float
                    (int32 (right_rc (rcMonitor monitorInfo) - left_rc (rcMonitor monitorInfo)));
          height = static_cast_float
                     (int32 (bottom_rc (rcMonitor monitorInfo) - top_rc (rcMonitor monitorInfo)));
          converted = Convert w monitor (width, height)
      in \<lparr>monitorName = TrimDeviceId w deviceId,
          virtualDesktop = virtualDesktopIdStr,
          dpi = sint dpi_out,
          top_mi = top_rc (rcWork monitorInfo),
          left_mi = left_rc (rcWork monitorInfo),
          workAreaWidth = int32 (right_rc (rcWork monitorInfo) - left_rc (rcWork monitorInfo)),
          workAreaHeight = int32 (bottom_rc (rcWork monitorInfo) - top_rc (rcWork monitorInfo)),
          monitorWidth = static_cast_int (roundf (fst converted)),
          monitorHeight = static_cast_int (roundf (snd converted)),
          isSelected = (monitor = targetMonitor)\<rparr>)"

definition Save_monitor ::
  "world \<Rightarrow> string \<Rightarrow> HMONITOR \<Rightarrow> HMONITOR \<times> MONITORINFOEX \<Rightarrow>
   (string \<rightharpoonup> nat) \<times> MonitorInfo list \<Rightarrow> (string \<rightharpoonup> nat) \<times> MonitorInfo list" where
  "Save_monitor w virtualDesktopIdStr targetMonitor monitorData st =
     (let (deviceId, displayDeviceIdxMap) =
             GetDisplayDeviceId w (szDevice (snd monitorData)) (fst st);
          (hr, dpi_out) = GetScreenDPIForMonitor w (fst monitorData)
      in if hr \<noteq> S_OK then (displayDeviceIdxMap, snd st)
         else (displayDeviceIdxMap,
               snd st @ [monitorJson_of w virtualDesktopIdStr targetMonitor monitorData deviceId dpi_out]))"

definition Save_loop ::
  "world \<Rightarrow> string \<Rightarrow> HMONITOR \<Rightarrow> (HMONITOR \<times> MONITORINFOEX) list \<Rightarrow>
   (string \<rightharpoonup> nat) \<times> MonitorInfo list \<Rightarrow> (string \<rightharpoonup> nat) \<times> MonitorInfo list" where
  "Save_loop w virtualDesktopIdStr targetMonitor allMonitors st =
     fold (Save_monitor w virtualDesktopIdStr targetMonitor) allMonitors st"

definition select_targetMonitor :: "world \<Rightarrow> HMONITOR" where
  \<comment> \<open>lines 135 to 145\<close>
  "select_targetMonitor w =
     (if settings_use_cursorpos_editor_startupscreen w
      then MonitorFromPoint w (GetCursorPos w)
      else MonitorFromWindow w (GetForegroundWindow w))"

definition Save_spanned :: "world \<Rightarrow> string \<Rightarrow> sys \<Rightarrow> MonitorInfo \<times> sys" where
  \<comment> \<open>lines 103 to 121: the first rectangle is computed by a task of the executor, the second by the caller\<close>
  "Save_spanned w virtualDesktopIdStr s =
     (let (combinedWorkArea, s1) =
            GetAllMonitorsCombinedRect w rcWork GetAllMonitorsCombinedRect_rcWork dpiUnawareThread s;
          (combinedMonitorArea, s2) =
            GetAllMonitorsCombinedRect w rcMonitor GetAllMonitorsCombinedRect_rcMonitor callerThread s1
      in (\<lparr>monitorName = MultiMonitorDeviceID w,
           virtualDesktop = virtualDesktopIdStr,
           dpi = 0,
           top_mi = top_rc combinedWorkArea,
           left_mi = left_rc combinedWorkArea,
           workAreaWidth = int32 (right_rc combinedWorkArea - left_rc combinedWorkArea),
           workAreaHeight = int32 (bottom_rc combinedWorkArea - top_rc combinedWorkArea),
           monitorWidth = int32 (right_rc combinedMonitorArea - left_rc combinedMonitorArea),
           monitorHeight = int32 (bottom_rc combinedMonitorArea - top_rc combinedMonitorArea),
           isSelected = True\<rparr>, s2))"

definition Save_argsJson :: "world \<Rightarrow> sys \<Rightarrow> EditorArgs option \<times> sys" where
  \<comment> \<open>lines 82 to 191: \<open>None\<close> is \<^verbatim>\<open>return false\<close>, \<open>Some\<close> is the value of \<^verbatim>\<open>argsJson\<close> at line 191\<close>
  "Save_argsJson w s0 =
     (case GuidToString_GetCurrentVirtualDesktopId w of
        None \<Rightarrow> (None, Logger_error ''Save editor params: no virtual desktop id'' s0)
      | Some virtualDesktopIdStr \<Rightarrow>
          (let s1 = SetThreadDpiHostingBehavior dpiUnawareThread DPI_HOSTING_BEHAVIOR_MIXED
                      (SetThreadDpiAwarenessContext dpiUnawareThread DPI_AWARENESS_CONTEXT_UNAWARE s0);
               span = settings_spanZonesAcrossMonitors w
           in if span
              then
                (let (monitorJson, s2) = Save_spanned w virtualDesktopIdStr s1
                 in (Some \<lparr>processId = GetCurrentProcessId w,
                           spanZonesAcrossMonitors = span,
                           monitors = [monitorJson]\<rparr>, s2))
              else
                (let (allMonitors, s2) = GetAllMonitorInfo w dpiUnawareThread s1;
                     targetMonitor = select_targetMonitor w
                 in if targetMonitor = 0
                    then (None, Logger_error ''No target monitor to open editor'' s2)
                    else
                      (Some \<lparr>processId = GetCurrentProcessId w,
                             spanZonesAcrossMonitors = span,
                             monitors = snd (Save_loop w virtualDesktopIdStr targetMonitor
                                               allMonitors (Map.empty, []))\<rparr>, s2))))"

definition FancyZonesEditorParametersFile :: string where
  "FancyZonesEditorParametersFile = ''editor-parameters.json''"

definition fileName :: "world \<Rightarrow> string" where
  \<comment> \<open>lines 193 and 194; the separator is one backslash\<close>
  "fileName w = get_module_save_folder_location w @ [CHR 0x5C] @ FancyZonesEditorParametersFile"

definition Save :: "world \<Rightarrow> sys \<Rightarrow> bool \<times> sys" where
  "Save w s0 =
     (case Save_argsJson w s0 of
        (None, s) \<Rightarrow> (False, s)
      | (Some argsJson, s) \<Rightarrow> (True, to_file (fileName w) (EditorArgs_ToJson argsJson) s))"

subsection \<open>Notions used to state the properties\<close>

definition dpi_ok :: "world \<Rightarrow> HMONITOR \<times> MONITORINFOEX \<Rightarrow> bool" where
  \<comment> \<open>the DPI query of line 171 succeeds for this monitor\<close>
  "dpi_ok w m = (fst (GetScreenDPIForMonitor w (fst m)) = S_OK)"

definition prior :: "(HMONITOR \<times> MONITORINFOEX) list \<Rightarrow> nat \<Rightarrow> nat" where
  \<comment> \<open>how many monitors enumerated before position \<open>i\<close> have the device name of the monitor at \<open>i\<close>\<close>
  "prior ms i = length (filter (\<lambda>m. szDevice (snd m) = szDevice (snd (ms ! i))) (take i ms))"

definition emitted_at :: "world \<Rightarrow> (HMONITOR \<times> MONITORINFOEX) list \<Rightarrow> nat \<Rightarrow> nat" where
  \<comment> \<open>the position, in the list written, of the record of the monitor enumerated at position \<open>i\<close>\<close>
  "emitted_at w ms i = length (filter (\<lambda>k. dpi_ok w (ms ! k)) [0..<i])"

definition record_at ::
  "world \<Rightarrow> string \<Rightarrow> HMONITOR \<Rightarrow> (HMONITOR \<times> MONITORINFOEX) list \<Rightarrow> nat \<Rightarrow> MonitorInfo" where
  "record_at w vd tgt ms i =
     monitorJson_of w vd tgt (ms ! i)
       (disambiguate w (szDevice (snd (ms ! i))) (prior ms i))
       (snd (GetScreenDPIForMonitor w (fst (ms ! i))))"

definition unaware_mixed :: thread_dpi where
  "unaware_mixed = \<lparr>awareness = DPI_AWARENESS_CONTEXT_UNAWARE, hosting = DPI_HOSTING_BEHAVIOR_MIXED\<rparr>"

definition allMonitors_of :: "world \<Rightarrow> (HMONITOR \<times> MONITORINFOEX) list" where
  \<comment> \<open>the value of \<^verbatim>\<open>allMonitors\<close> at line 133\<close>
  "allMonitors_of w = EnumDisplayMonitors w unaware_mixed"

definition nearest_half_away :: "rat \<Rightarrow> int \<Rightarrow> bool" where
  \<comment> \<open>\<open>n\<close> is the integer nearest to \<open>x\<close>, the one further from zero where two are equally near\<close>
  "nearest_half_away x n =
     (\<bar>of_int n - x\<bar> \<le> 1 / 2 \<and> (\<bar>of_int n - x\<bar> = 1 / 2 \<longrightarrow> \<bar>x\<bar> < \<bar>of_int n\<bar>))"

definition work_rects :: "world \<Rightarrow> RECT list" where
  \<comment> \<open>the work areas reported to the DPI-unaware thread\<close>
  "work_rects w = map (\<lambda>m. rcWork (snd m)) (EnumDisplayMonitors w unaware_mixed)"

definition full_rects :: "world \<Rightarrow> sys \<Rightarrow> RECT list" where
  \<comment> \<open>the full bounds reported to the calling thread\<close>
  "full_rects w s = map (\<lambda>m. rcMonitor (snd m)) (EnumDisplayMonitors w (thread_ctx s callerThread))"

definition new_events :: "world \<Rightarrow> sys \<Rightarrow> enum_event list" where
  \<comment> \<open>the enumerations made during one call of \<open>Save\<close>\<close>
  "new_events w s = drop (length (enum_trace s)) (enum_trace (snd (Save w s)))"

fun with_process_id :: "DWORD \<Rightarrow> json \<Rightarrow> json" where
  \<comment> \<open>the same JSON object, its process-id member set to \<open>p\<close>\<close>
  "with_process_id p (JsonObject members) = JsonObject (SetNamedValue ProcessId (JsonNumber (uint p)) members)"
| "with_process_id p j = j"

definition device_id_at :: "world \<Rightarrow> (HMONITOR \<times> MONITORINFOEX) list \<Rightarrow> nat \<Rightarrow> string" where
  \<comment> \<open>the device id obtained at line 160 for the monitor enumerated at position \<open>i\<close>\<close>
  "device_id_at w ms i = disambiguate w (szDevice (snd (ms ! i))) (prior ms i)"

definition distinct_suffixes :: "world \<Rightarrow> bool" where
  \<comment> \<open>the index suffixes are not empty and differ from one index to another\<close>
  "distinct_suffixes w =
     ((\<forall>n. 0 < n \<longrightarrow> index_suffix w n \<noteq> []) \<and>
      (\<forall>m n. 0 < m \<and> 0 < n \<and> m \<noteq> n \<longrightarrow> index_suffix w m \<noteq> index_suffix w n))"

definition written_monitors :: "world \<Rightarrow> sys \<Rightarrow> MonitorInfo list" where
  \<comment> \<open>the \<^verbatim>\<open>monitors\<close> of the record that \<open>Save\<close> writes; empty where it writes none\<close>
  "written_monitors w s =
     (case fst (Save_argsJson w s) of None \<Rightarrow> [] | Some argsJson \<Rightarrow> monitors argsJson)"

subsection \<open>A concrete desktop\<close>

text \<open>
  Three monitors driven by one adapter, so that all three report the device name
  \<open>DISPLAY1\<close>: a 1920 x 1080 primary at 96 DPI, a second one to its right at 144 DPI and a
  1366 x 768 panel to its left at 120 DPI. The pointer is over the primary monitor, the
  foreground window on the second one. The conversion scales by \<open>dpi / 96\<close>; the index
  suffix is a dash and \<open>n\<close> strokes; trimming leaves the id as it is.
\<close>

definition example_monitors :: "(HMONITOR \<times> MONITORINFOEX) list" where
  "example_monitors =
     [(1, \<lparr>rcMonitor = \<lparr>left_rc = 0, top_rc = 0, right_rc = 1920, bottom_rc = 1080\<rparr>,
           rcWork = \<lparr>left_rc = 0, top_rc = 0, right_rc = 1920, bottom_rc = 1040\<rparr>,
           szDevice = ''DISPLAY1''\<rparr>),
      (2, \<lparr>rcMonitor = \<lparr>left_rc = 1920, top_rc = 0, right_rc = 3840, bottom_rc = 1080\<rparr>,
           rcWork = \<lparr>left_rc = 1920, top_rc = 0, right_rc = 3840, bottom_rc = 1040\<rparr>,
           szDevice = ''DISPLAY1''\<rparr>),
      (3, \<lparr>rcMonitor = \<lparr>left_rc = - 1366, top_rc = 0, right_rc = 0, bottom_rc = 768\<rparr>,
           rcWork = \<lparr>left_rc = - 1366, top_rc = 0, right_rc = 0, bottom_rc = 728\<rparr>,
           szDevice = ''DISPLAY1''\<rparr>)]"

definition example_dpi :: "HMONITOR \<Rightarrow> HRESULT \<times> UINT" where
  "example_dpi h = (if h = 1 then (0, 96) else if h = 2 then (0, 144) else (0, 120))"

definition E_FAIL :: HRESULT where
  "E_FAIL = - 2147467259"

definition example_world :: world where
  "example_world =
     \<lparr>GuidToString_GetCurrentVirtualDesktopId = Some ''{D1}'',
      settings_spanZonesAcrossMonitors = False,
      settings_use_cursorpos_editor_startupscreen = True,
      GetCurrentProcessId = 4242,
      EnumDisplayMonitors = (\<lambda>c. example_monitors),
      GetCursorPos = (10, 10),
      MonitorFromPoint = (\<lambda>p. if fst p < 0 then 3 else if fst p < 1920 then 1 else 2),
      GetForegroundWindow = 7,
      MonitorFromWindow = (\<lambda>h. 2),
      GetScreenDPIForMonitor = example_dpi,
      Convert = (\<lambda>h wh. (fst wh * of_int (uint (snd (example_dpi h))) / 96,
                           snd wh * of_int (uint (snd (example_dpi h))) / 96)),
      MultiMonitorDeviceID = ''FancyZones#MultiMonitorDevice'',
      index_suffix = (\<lambda>n. CHR ''-'' # replicate n CHR ''i''),
      TrimDeviceId = (\<lambda>deviceId. deviceId),
      get_module_save_folder_location = ''FancyZones''\<rparr>"

definition example_sys :: sys where
  "example_sys =
     \<lparr>thread_ctx = (\<lambda>t. \<lparr>awareness = DPI_AWARENESS_CONTEXT_PER_MONITOR_AWARE_V2,
                          hosting = DPI_HOSTING_BEHAVIOR_DEFAULT\<rparr>),
      enum_trace = [],
      logged = [],
      files = Map.empty\<rparr>"

definition example_world_target_dpi_fails :: world where
  \<comment> \<open>the same desktop, the DPI query failing for the monitor under the pointer\<close>
  "example_world_target_dpi_fails =
     example_world\<lparr>GetScreenDPIForMonitor := (\<lambda>h. if h = 1 then (E_FAIL, 0) else example_dpi h)\<rparr>"

definition example_world_second_dpi_fails :: world where
  \<comment> \<open>the same desktop, the DPI query failing for the second monitor enumerated\<close>
  "example_world_second_dpi_fails =
     example_world\<lparr>GetScreenDPIForMonitor := (\<lambda>h. if h = 2 then (E_FAIL, 0) else example_dpi h)\<rparr>"

definition example_world_spanned :: world where
  \<comment> \<open>the same desktop, zones spanning all monitors\<close>
  "example_world_spanned = example_world\<lparr>settings_spanZonesAcrossMonitors := True\<rparr>"

definition example_world_no_monitors :: world where
  \<comment> \<open>the same settings, the system reporting no monitor\<close>
  "example_world_no_monitors = example_world\<lparr>EnumDisplayMonitors := (\<lambda>c. [])\<rparr>"




section \<open>Properties\<close>

subsection \<open>The outcome of \<open>Save\<close>\<close>

lemma Save_argsJson_None_iff:
  "fst (Save_argsJson w s) = None \<longleftrightarrow>
     (GuidToString_GetCurrentVirtualDesktopId w = None \<or>
      (\<not> settings_spanZonesAcrossMonitors w \<and> select_targetMonitor w = 0))"
  by (simp add: Save_argsJson_def Save_spanned_def GetAllMonitorInfo_def
      GetAllMonitorsCombinedRect_def Let_def split: option.splits prod.splits)

lemma Save_argsJson_logged:
  "logged (snd (Save_argsJson w s)) =
     (if GuidToString_GetCurrentVirtualDesktopId w = None
      then logged s @ [''Save editor params: no virtual desktop id'']
      else if \<not> settings_spanZonesAcrossMonitors w \<and> select_targetMonitor w = 0
      then logged s @ [''No target monitor to open editor'']
      else logged s)"
  by (simp add: Save_argsJson_def Save_spanned_def GetAllMonitorInfo_def
      GetAllMonitorsCombinedRect_def Logger_error_def record_enum_def
      SetThreadDpiHostingBehavior_def SetThreadDpiAwarenessContext_def Let_def
      split: option.splits prod.splits)

lemma Save_argsJson_files:
  "files (snd (Save_argsJson w s)) = files s"
  by (simp add: Save_argsJson_def Save_spanned_def GetAllMonitorInfo_def
      GetAllMonitorsCombinedRect_def Logger_error_def record_enum_def
      SetThreadDpiHostingBehavior_def SetThreadDpiAwarenessContext_def Let_def
      split: option.splits prod.splits)

lemma Save_fst: "fst (Save w s) = (fst (Save_argsJson w s) \<noteq> None)"
  by (simp add: Save_def split: prod.splits option.splits)

lemma Save_snd:
  "snd (Save w s) =
     (case fst (Save_argsJson w s) of
        None \<Rightarrow> snd (Save_argsJson w s)
      | Some argsJson \<Rightarrow>
          to_file (fileName w) (EditorArgs_ToJson argsJson) (snd (Save_argsJson w s)))"
  by (simp add: Save_def split: prod.splits option.splits)

lemma select_targetMonitor_dpi:
  "select_targetMonitor (w\<lparr>GetScreenDPIForMonitor := d\<rparr>) = select_targetMonitor w"
  by (simp add: select_targetMonitor_def)

text \<open>
  C1. \<open>Save\<close> returns false exactly when the virtual-desktop id is missing or, with spanning
  off, the target monitor handle is null. It then has logged one error and has left the
  files as they were. In every other case it returns true, logs nothing and writes the
  record built from \<open>argsJson\<close> to the parameter file. The answers of the per-monitor DPI
  query have no influence on the value returned.
\<close>

theorem Save_returns_false_iff:
  "(fst (Save w s) = False \<longleftrightarrow>
      (GuidToString_GetCurrentVirtualDesktopId w = None \<or>
       (\<not> settings_spanZonesAcrossMonitors w \<and> select_targetMonitor w = 0)))
   \<and> (fst (Save w s) = False \<longrightarrow>
        files (snd (Save w s)) = files s \<and>
        (\<exists>msg. logged (snd (Save w s)) = logged s @ [msg]))
   \<and> (fst (Save w s) = True \<longrightarrow>
        logged (snd (Save w s)) = logged s \<and>
        (\<exists>argsJson. fst (Save_argsJson w s) = Some argsJson \<and>
           files (snd (Save w s)) = (files s)(fileName w \<mapsto> EditorArgs_ToJson argsJson)))
   \<and> fst (Save (w\<lparr>GetScreenDPIForMonitor := d\<rparr>) s) = fst (Save w s)"
proof -
  have ret: "fst (Save w s) = False \<longleftrightarrow>
      (GuidToString_GetCurrentVirtualDesktopId w = None \<or>
       (\<not> settings_spanZonesAcrossMonitors w \<and> select_targetMonitor w = 0))" for w
    using Save_argsJson_None_iff [of w s] by (simp add: Save_fst)
  have failing: "fst (Save w s) = False \<longrightarrow>
        files (snd (Save w s)) = files s \<and>
        (\<exists>msg. logged (snd (Save w s)) = logged s @ [msg])"
    using Save_argsJson_None_iff [of w s]
    by (auto simp: Save_fst Save_snd Save_argsJson_files Save_argsJson_logged)
  have ok: "fst (Save w s) = True \<longrightarrow>
        logged (snd (Save w s)) = logged s \<and>
        (\<exists>argsJson. fst (Save_argsJson w s) = Some argsJson \<and>
           files (snd (Save w s)) = (files s)(fileName w \<mapsto> EditorArgs_ToJson argsJson))"
    using Save_argsJson_None_iff [of w s]
    by (auto simp: Save_fst Save_snd Save_argsJson_files Save_argsJson_logged to_file_def)
  have "fst (Save (w\<lparr>GetScreenDPIForMonitor := d\<rparr>) s) = fst (Save w s)"
    using ret [of w] ret [of "w\<lparr>GetScreenDPIForMonitor := d\<rparr>"]
    by (auto simp: select_targetMonitor_dpi)
  with ret [of w] failing ok show ?thesis by blast
qed

theorem Save_returns_false_iff_witness:
  "fst (Save (example_world\<lparr>GuidToString_GetCurrentVirtualDesktopId := None\<rparr>) example_sys) = False
   \<and> files (snd (Save (example_world\<lparr>GuidToString_GetCurrentVirtualDesktopId := None\<rparr>) example_sys))
       = files example_sys
   \<and> fst (Save example_world example_sys) = True
   \<and> logged (snd (Save example_world example_sys)) = logged example_sys"
  using Save_returns_false_iff
      [of "example_world\<lparr>GuidToString_GetCurrentVirtualDesktopId := None\<rparr>" example_sys]
    Save_returns_false_iff [of example_world example_sys]
  by (simp add: example_world_def select_targetMonitor_def)

subsection \<open>The loop over the monitors\<close>

lemma Save_monitor_count:
  "occurrence_count (fst (Save_monitor w vd tgt m st)) dev =
     occurrence_count (fst st) dev + (if szDevice (snd m) = dev then 1 else 0)"
  by (simp add: Save_monitor_def GetDisplayDeviceId_def occurrence_count_def Let_def
      split: prod.splits)

lemma Save_monitor_list:
  "snd (Save_monitor w vd tgt m st) =
     snd st @ (if dpi_ok w m
               then [monitorJson_of w vd tgt m
                       (disambiguate w (szDevice (snd m)) (occurrence_count (fst st) (szDevice (snd m))))
                       (snd (GetScreenDPIForMonitor w (fst m)))]
               else [])"
  by (simp add: Save_monitor_def GetDisplayDeviceId_def dpi_ok_def Let_def split: prod.splits)

lemma Save_loop_snoc:
  "Save_loop w vd tgt (ms @ [m]) st = Save_monitor w vd tgt m (Save_loop w vd tgt ms st)"
  by (simp add: Save_loop_def)

lemma Save_loop_count:
  "occurrence_count (fst (Save_loop w vd tgt ms (Map.empty, []))) dev =
     length (filter (\<lambda>m. szDevice (snd m) = dev) ms)"
proof (induction ms rule: rev_induct)
  case Nil
  show ?case by (simp add: Save_loop_def occurrence_count_def)
next
  case (snoc m ms)
  then show ?case by (simp add: Save_loop_snoc Save_monitor_count)
qed

lemma record_at_snoc_old:
  assumes "i < length ms"
  shows "record_at w vd tgt (ms @ [m]) i = record_at w vd tgt ms i"
  using assms by (simp add: record_at_def prior_def nth_append)

lemma record_at_snoc_new:
  "record_at w vd tgt (ms @ [m]) (length ms) =
     monitorJson_of w vd tgt m
       (disambiguate w (szDevice (snd m)) (length (filter (\<lambda>x. szDevice (snd x) = szDevice (snd m)) ms)))
       (snd (GetScreenDPIForMonitor w (fst m)))"
  by (simp add: record_at_def prior_def)

lemma Save_loop_records:
  "snd (Save_loop w vd tgt ms (Map.empty, [])) =
     map (record_at w vd tgt ms) (filter (\<lambda>i. dpi_ok w (ms ! i)) [0..<length ms])"
proof (induction ms rule: rev_induct)
  case Nil
  show ?case by (simp add: Save_loop_def)
next
  case (snoc m ms)
  have old: "map (record_at w vd tgt (ms @ [m])) (filter (\<lambda>i. dpi_ok w ((ms @ [m]) ! i)) [0..<length ms]) =
             map (record_at w vd tgt ms) (filter (\<lambda>i. dpi_ok w (ms ! i)) [0..<length ms])"
  proof -
    have "filter (\<lambda>i. dpi_ok w ((ms @ [m]) ! i)) [0..<length ms] =
          filter (\<lambda>i. dpi_ok w (ms ! i)) [0..<length ms]"
      by (rule filter_cong) (simp_all add: nth_append)
    moreover have "map (record_at w vd tgt (ms @ [m])) (filter (\<lambda>i. dpi_ok w (ms ! i)) [0..<length ms]) =
          map (record_at w vd tgt ms) (filter (\<lambda>i. dpi_ok w (ms ! i)) [0..<length ms])"
      by (rule map_cong) (simp_all add: record_at_snoc_old)
    ultimately show ?thesis by simp
  qed
  show ?case
    by (simp add: Save_loop_snoc Save_monitor_list snoc.IH Save_loop_count old record_at_snoc_new)
qed

lemma upt_split: "i < n \<Longrightarrow> [0..<n] = [0..<i] @ i # [Suc i..<n]"
  by (metis less_imp_le_nat upt_add_eq_append upt_conv_Cons le_add_diff_inverse zero_le)

lemma nth_map_filter_upt:
  assumes "i < n" and "P i"
  shows "map f (filter P [0..<n]) ! length (filter P [0..<i]) = f i"
proof -
  have "map f (filter P [0..<n]) =
        map f (filter P [0..<i]) @ f i # map f (filter P [Suc i..<n])"
    using assms(2) upt_split [OF assms(1)] by simp
  then show ?thesis
    by (simp add: nth_append)
qed

lemma length_filter_upt_less:
  assumes "i < n" and "P i"
  shows "length (filter P [0..<i]) < length (filter P [0..<n])"
proof -
  have "filter P [0..<n] = filter P [0..<i] @ i # filter P [Suc i..<n]"
    using assms(2) upt_split [OF assms(1)] by simp
  then show ?thesis by simp
qed

lemma map_filter_indices:
  "map (\<lambda>i. f (ms ! i)) (filter (\<lambda>i. P (ms ! i)) [0..<length ms]) = map f (filter P ms)"
proof -
  have "filter P (map (nth ms) [0..<length ms]) =
        map (nth ms) (filter (\<lambda>i. P (ms ! i)) [0..<length ms])"
    by (simp add: filter_map comp_def)
  then have "filter P ms = map (nth ms) (filter (\<lambda>i. P (ms ! i)) [0..<length ms])"
    by (simp add: map_nth)
  then show ?thesis by (simp add: comp_def)
qed

lemma worker_unaware_mixed:
  "thread_ctx (SetThreadDpiHostingBehavior dpiUnawareThread DPI_HOSTING_BEHAVIOR_MIXED
      (SetThreadDpiAwarenessContext dpiUnawareThread DPI_AWARENESS_CONTEXT_UNAWARE s)) dpiUnawareThread
   = unaware_mixed"
  by (simp add: SetThreadDpiHostingBehavior_def SetThreadDpiAwarenessContext_def unaware_mixed_def)

lemma caller_ctx_kept:
  "thread_ctx (SetThreadDpiHostingBehavior dpiUnawareThread DPI_HOSTING_BEHAVIOR_MIXED
      (SetThreadDpiAwarenessContext dpiUnawareThread DPI_AWARENESS_CONTEXT_UNAWARE s)) callerThread
   = thread_ctx s callerThread"
  by (simp add: SetThreadDpiHostingBehavior_def SetThreadDpiAwarenessContext_def)

lemma Save_argsJson_not_spanned:
  assumes "\<not> settings_spanZonesAcrossMonitors w"
    and "GuidToString_GetCurrentVirtualDesktopId w = Some vd"
    and "select_targetMonitor w \<noteq> 0"
  shows "fst (Save_argsJson w s) =
     Some \<lparr>processId = GetCurrentProcessId w, spanZonesAcrossMonitors = False,
           monitors = map (record_at w vd (select_targetMonitor w) (allMonitors_of w))
                        (filter (\<lambda>i. dpi_ok w (allMonitors_of w ! i)) [0..<length (allMonitors_of w)])\<rparr>"
  using assms
  by (simp add: Save_argsJson_def GetAllMonitorInfo_def Let_def worker_unaware_mixed
      allMonitors_of_def Save_loop_records)

lemma written_monitors_not_spanned:
  assumes "\<not> settings_spanZonesAcrossMonitors w" and "fst (Save w s) = True"
  shows "written_monitors w s =
     map (record_at w (the (GuidToString_GetCurrentVirtualDesktopId w)) (select_targetMonitor w) (allMonitors_of w))
       (filter (\<lambda>i. dpi_ok w (allMonitors_of w ! i)) [0..<length (allMonitors_of w)])"
proof -
  from assms have "GuidToString_GetCurrentVirtualDesktopId w \<noteq> None" and "select_targetMonitor w \<noteq> 0"
    using Save_argsJson_None_iff [of w s] by (auto simp: Save_fst)
  then obtain vd where "GuidToString_GetCurrentVirtualDesktopId w = Some vd" by auto
  with assms(1) \<open>select_targetMonitor w \<noteq> 0\<close> show ?thesis
    by (simp add: written_monitors_def Save_argsJson_not_spanned)
qed

lemma written_monitors_nth:
  assumes "\<not> settings_spanZonesAcrossMonitors w" and "fst (Save w s) = True"
    and "i < length (allMonitors_of w)" and "dpi_ok w (allMonitors_of w ! i)"
  shows "written_monitors w s ! emitted_at w (allMonitors_of w) i =
     record_at w (the (GuidToString_GetCurrentVirtualDesktopId w)) (select_targetMonitor w) (allMonitors_of w) i"
    and "emitted_at w (allMonitors_of w) i < length (written_monitors w s)"
proof -
  show "written_monitors w s ! emitted_at w (allMonitors_of w) i =
     record_at w (the (GuidToString_GetCurrentVirtualDesktopId w)) (select_targetMonitor w) (allMonitors_of w) i"
    unfolding written_monitors_not_spanned [OF assms(1,2)] emitted_at_def
    using assms(3,4)
    by (rule nth_map_filter_upt [where P = "\<lambda>k. dpi_ok w (allMonitors_of w ! k)"])
  show "emitted_at w (allMonitors_of w) i < length (written_monitors w s)"
    unfolding written_monitors_not_spanned [OF assms(1,2)] emitted_at_def
    using length_filter_upt_less [where P = "\<lambda>k. dpi_ok w (allMonitors_of w ! k)", OF assms(3,4)]
    by simp
qed

lemma isSelected_record_at [simp]:
  "isSelected (record_at w vd tgt ms i) = (fst (ms ! i) = tgt)"
  by (simp add: record_at_def monitorJson_of_def Let_def)

lemma dpi_record_at [simp]:
  "dpi (record_at w vd tgt ms i) = sint (snd (GetScreenDPIForMonitor w (fst (ms ! i))))"
  by (simp add: record_at_def monitorJson_of_def Let_def)

lemma length_filter_distinct_key:
  assumes "distinct (map f xs)"
  shows "length (filter (\<lambda>x. f x = a \<and> P x) xs) = (if \<exists>x\<in>set xs. f x = a \<and> P x then 1 else 0)"
  using assms
proof (induction xs)
  case Nil
  show ?case by simp
next
  case (Cons x xs)
  then show ?case by (auto simp: image_iff)
qed

text \<open>
  C2, as amended. In a snapshot written with spanning off, the records stand, in order, for
  the enumerated monitors whose DPI query succeeded, and a record is selected exactly when
  its monitor's handle is the one the selection policy chose. Where the enumeration lists
  no handle twice, exactly one record is selected if the chosen monitor is enumerated and
  its DPI query succeeds, and none is selected otherwise.
\<close>

theorem selected_records:
  assumes "\<not> settings_spanZonesAcrossMonitors w" and "fst (Save w s) = True"
  shows "map isSelected (written_monitors w s) =
           map (\<lambda>m. fst m = select_targetMonitor w) (filter (dpi_ok w) (allMonitors_of w))
         \<and> (distinct (map fst (allMonitors_of w)) \<longrightarrow>
              length (filter isSelected (written_monitors w s)) =
                (if \<exists>m\<in>set (allMonitors_of w). fst m = select_targetMonitor w \<and> dpi_ok w m
                 then 1 else 0))"
proof -
  have flags: "map isSelected (written_monitors w s) =
           map (\<lambda>m. fst m = select_targetMonitor w) (filter (dpi_ok w) (allMonitors_of w))"
    using map_filter_indices [of "\<lambda>m. fst m = select_targetMonitor w" "allMonitors_of w" "dpi_ok w"]
    by (simp add: written_monitors_not_spanned [OF assms] comp_def)
  have "length (filter isSelected (written_monitors w s)) =
        length (filter (\<lambda>b. b) (map isSelected (written_monitors w s)))"
    by (simp add: filter_map comp_def)
  also have "\<dots> = length (filter (\<lambda>m. fst m = select_targetMonitor w \<and> dpi_ok w m) (allMonitors_of w))"
    by (simp add: flags filter_map comp_def conj_commute)
  finally have "length (filter isSelected (written_monitors w s)) =
        length (filter (\<lambda>m. fst m = select_targetMonitor w \<and> dpi_ok w m) (allMonitors_of w))" .
  with flags show ?thesis
    by (simp add: length_filter_distinct_key)
qed


lemmas example_defs =
  example_world_def example_monitors_def example_dpi_def example_sys_def E_FAIL_def S_OK_def

lemma example_Save_ok: "fst (Save example_world example_sys) = True"
  by (simp add: Save_fst Save_argsJson_None_iff select_targetMonitor_def example_defs)

lemma example_allMonitors: "allMonitors_of example_world = example_monitors"
  by (simp add: allMonitors_of_def example_world_def)

lemma example_target: "select_targetMonitor example_world = 1"
  by (simp add: select_targetMonitor_def example_defs)

lemma example_dpi_ok: "dpi_ok example_world m = True"
  by (simp add: dpi_ok_def example_defs)

theorem selected_records_witness:
  "\<not> settings_spanZonesAcrossMonitors example_world
   \<and> fst (Save example_world example_sys) = True
   \<and> distinct (map fst (allMonitors_of example_world))
   \<and> map isSelected (written_monitors example_world example_sys) = [True, False, False]
   \<and> length (filter isSelected (written_monitors example_world example_sys)) = 1"
proof -
  have h1: "\<not> settings_spanZonesAcrossMonitors example_world"
    by (simp add: example_world_def)
  show ?thesis
    using selected_records [OF h1 example_Save_ok] h1
    by (simp add: example_Save_ok example_allMonitors example_target example_dpi_ok example_monitors_def)
qed

lemma target_dpi_fails_facts:
  "settings_spanZonesAcrossMonitors example_world_target_dpi_fails = False"
  "fst (Save example_world_target_dpi_fails example_sys) = True"
  "allMonitors_of example_world_target_dpi_fails = example_monitors"
  "select_targetMonitor example_world_target_dpi_fails = 1"
  "dpi_ok example_world_target_dpi_fails m = (fst m \<noteq> 1)"
  by (simp_all add: Save_fst Save_argsJson_None_iff select_targetMonitor_def allMonitors_of_def
      dpi_ok_def example_world_target_dpi_fails_def example_defs)

text \<open>
  C2 as stated fails: with the pointer over monitor 1 and the DPI query failing for that
  monitor, \<open>Save\<close> succeeds with spanning off and no record written is selected.
\<close>

theorem exactly_one_selected_counterexample:
  "settings_spanZonesAcrossMonitors example_world_target_dpi_fails = False
   \<and> fst (Save example_world_target_dpi_fails example_sys) = True
   \<and> select_targetMonitor example_world_target_dpi_fails = 1
   \<and> map isSelected (written_monitors example_world_target_dpi_fails example_sys) = [False, False]
   \<and> length (filter isSelected (written_monitors example_world_target_dpi_fails example_sys)) \<noteq> 1"
proof -
  have h1: "\<not> settings_spanZonesAcrossMonitors example_world_target_dpi_fails"
    by (simp add: target_dpi_fails_facts)
  have "map isSelected (written_monitors example_world_target_dpi_fails example_sys) = [False, False]"
    using map_filter_indices [of "\<lambda>m. fst m = 1" example_monitors "\<lambda>m. fst m \<noteq> 1"]
    by (simp add: written_monitors_not_spanned [OF h1 target_dpi_fails_facts(2)] comp_def
        target_dpi_fails_facts)
       (simp add: example_monitors_def)
  moreover from this
  have "length (filter (\<lambda>b. b) (map isSelected (written_monitors example_world_target_dpi_fails example_sys))) = 0"
    by simp
  then have "length (filter isSelected (written_monitors example_world_target_dpi_fails example_sys)) = 0"
    by (simp add: filter_map comp_def)
  ultimately show ?thesis
    using h1 by (simp add: target_dpi_fails_facts)
qed

text \<open>
  C4. In a snapshot written with spanning off, the records stand, in order, for exactly the
  enumerated monitors whose DPI query succeeded: a monitor whose query fails has no record,
  each record carries the DPI value reported for its own monitor, and every other monitor
  keeps its record. Whatever the DPI queries answer, \<open>Save\<close> still succeeds, and the
  is-selected flag of a monitor whose query succeeds is the same.
\<close>

theorem dpi_failure_skips_monitor:
  assumes "\<not> settings_spanZonesAcrossMonitors w" and "fst (Save w s) = True"
  shows "map (\<lambda>r. (dpi r, isSelected r)) (written_monitors w s) =
           map (\<lambda>m. (sint (snd (GetScreenDPIForMonitor w (fst m))), fst m = select_targetMonitor w))
             (filter (dpi_ok w) (allMonitors_of w))
         \<and> fst (Save (w\<lparr>GetScreenDPIForMonitor := d\<rparr>) s) = True
         \<and> (\<forall>i<length (allMonitors_of w).
              dpi_ok w (allMonitors_of w ! i) \<longrightarrow>
              dpi_ok (w\<lparr>GetScreenDPIForMonitor := d\<rparr>) (allMonitors_of w ! i) \<longrightarrow>
              isSelected (written_monitors (w\<lparr>GetScreenDPIForMonitor := d\<rparr>) s
                            ! emitted_at (w\<lparr>GetScreenDPIForMonitor := d\<rparr>) (allMonitors_of w) i) =
              isSelected (written_monitors w s ! emitted_at w (allMonitors_of w) i))"
proof -
  let ?w' = "w\<lparr>GetScreenDPIForMonitor := d\<rparr>"
  have same: "allMonitors_of ?w' = allMonitors_of w" "select_targetMonitor ?w' = select_targetMonitor w"
    by (simp_all add: allMonitors_of_def select_targetMonitor_def)
  have span': "\<not> settings_spanZonesAcrossMonitors ?w'"
    using assms(1) by simp
  have ok': "fst (Save ?w' s) = True"
    using assms Save_argsJson_None_iff [of w s] Save_argsJson_None_iff [of ?w' s]
    by (simp add: Save_fst same)
  have records: "map (\<lambda>r. (dpi r, isSelected r)) (written_monitors w s) =
           map (\<lambda>m. (sint (snd (GetScreenDPIForMonitor w (fst m))), fst m = select_targetMonitor w))
             (filter (dpi_ok w) (allMonitors_of w))"
    using map_filter_indices
      [of "\<lambda>m. (sint (snd (GetScreenDPIForMonitor w (fst m))), fst m = select_targetMonitor w)"
          "allMonitors_of w" "dpi_ok w"]
    by (simp add: written_monitors_not_spanned [OF assms] comp_def)
  have flags: "isSelected (written_monitors ?w' s ! emitted_at ?w' (allMonitors_of w) i) =
               isSelected (written_monitors w s ! emitted_at w (allMonitors_of w) i)"
    if "i < length (allMonitors_of w)" "dpi_ok w (allMonitors_of w ! i)"
       "dpi_ok ?w' (allMonitors_of w ! i)" for i
    using written_monitors_nth(1) [OF assms that(1,2)]
      written_monitors_nth(1) [OF span' ok', of i] that
    by (simp add: same)
  from records ok' flags show ?thesis by blast
qed

lemma second_dpi_fails_facts:
  "settings_spanZonesAcrossMonitors example_world_second_dpi_fails = False"
  "fst (Save example_world_second_dpi_fails example_sys) = True"
  "allMonitors_of example_world_second_dpi_fails = example_monitors"
  "select_targetMonitor example_world_second_dpi_fails = 1"
  "dpi_ok example_world_second_dpi_fails m = (fst m \<noteq> 2)"
  by (simp_all add: Save_fst Save_argsJson_None_iff select_targetMonitor_def allMonitors_of_def
      dpi_ok_def example_world_second_dpi_fails_def example_defs)

theorem dpi_failure_skips_monitor_witness:
  "\<not> settings_spanZonesAcrossMonitors example_world
   \<and> fst (Save example_world example_sys) = True
   \<and> map (\<lambda>r. (dpi r, isSelected r)) (written_monitors example_world example_sys)
       = [(96, True), (144, False), (120, False)]
   \<and> fst (Save example_world_second_dpi_fails example_sys) = True
   \<and> 2 < length (allMonitors_of example_world)
   \<and> dpi_ok example_world (allMonitors_of example_world ! 2)
   \<and> dpi_ok example_world_second_dpi_fails (allMonitors_of example_world ! 2)
   \<and> isSelected (written_monitors example_world_second_dpi_fails example_sys
                   ! emitted_at example_world_second_dpi_fails (allMonitors_of example_world) 2) =
      isSelected (written_monitors example_world example_sys
                   ! emitted_at example_world (allMonitors_of example_world) 2)"
proof -
  have h1: "\<not> settings_spanZonesAcrossMonitors example_world"
    by (simp add: example_defs)
  have h2: "2 < length (allMonitors_of example_world)"
    "dpi_ok example_world (allMonitors_of example_world ! 2)"
    "dpi_ok example_world_second_dpi_fails (allMonitors_of example_world ! 2)"
    by (simp_all add: example_allMonitors example_dpi_ok second_dpi_fails_facts)
       (simp_all add: example_monitors_def)
  note inst = dpi_failure_skips_monitor [OF h1 example_Save_ok,
      of "\<lambda>h. if h = 2 then (E_FAIL, 0) else example_dpi h",
      folded example_world_second_dpi_fails_def]
  have "map (\<lambda>r. (dpi r, isSelected r)) (written_monitors example_world example_sys)
       = [(96, True), (144, False), (120, False)]"
    using inst [THEN conjunct1]
    by (simp add: example_allMonitors example_target example_dpi_ok example_monitors_def)
       (simp add: example_defs)
  moreover have "isSelected (written_monitors example_world_second_dpi_fails example_sys
                   ! emitted_at example_world_second_dpi_fails (allMonitors_of example_world) 2) =
      isSelected (written_monitors example_world example_sys
                   ! emitted_at example_world (allMonitors_of example_world) 2)"
    using inst [THEN conjunct2, THEN conjunct2, rule_format, OF h2] .
  ultimately show ?thesis
    using h1 h2 by (simp add: example_Save_ok second_dpi_fails_facts)
qed

lemma int32_fits: "fits_int32 x \<Longrightarrow> int32 x = x"
  by (simp add: fits_int32_def int32_def)

lemma fits_int32_int32: "fits_int32 (int32 x)"
proof -
  have "0 \<le> (x + 2147483648) mod 4294967296" and "(x + 2147483648) mod 4294967296 < 4294967296"
    by simp_all
  then show ?thesis
    by (simp add: fits_int32_def int32_def)
qed

lemma trunc_roundf:
  "(if 0 \<le> roundf x then \<lfloor>roundf x\<rfloor> else - \<lfloor>- roundf x\<rfloor>) =
     (if 0 \<le> x then \<lfloor>x + 1 / 2\<rfloor> else - \<lfloor>- x + 1 / 2\<rfloor>)"
proof (cases "0 \<le> x")
  case True
  then have "(0::int) \<le> \<lfloor>x + 1 / 2\<rfloor>" by simp
  with True show ?thesis by (simp add: roundf_def)
next
  case False
  then have "(0::int) \<le> \<lfloor>- x + 1 / 2\<rfloor>" by simp
  with False show ?thesis
    by (cases "\<lfloor>- x + 1 / 2\<rfloor> = 0") (simp_all add: roundf_def)
qed

lemma roundf_fits:
  fixes x :: rat
  assumes "- 2147483648 \<le> x" and "x \<le> 2147483647"
  shows "fits_int32 (if 0 \<le> x then \<lfloor>x + 1 / 2\<rfloor> else - \<lfloor>- x + 1 / 2\<rfloor>)"
proof (cases "0 \<le> x")
  case True
  define n where "n = \<lfloor>x + 1 / 2\<rfloor>"
  have "x + 1 / 2 < 2147483648"
    using assms(2) by simp
  then have "n < 2147483648"
    unfolding n_def by (simp add: floor_less_iff)
  moreover from True have "0 \<le> n"
    unfolding n_def by simp
  ultimately have "fits_int32 n"
    by (simp add: fits_int32_def)
  then show ?thesis
    using True by (simp only: n_def if_True)
next
  case False
  define n where "n = \<lfloor>- x + 1 / 2\<rfloor>"
  have "- x + 1 / 2 < 2147483649"
    using assms(1) by simp
  then have "n < 2147483649"
    unfolding n_def by (simp add: floor_less_iff)
  moreover from False have "0 \<le> n"
    unfolding n_def by simp
  ultimately have "fits_int32 (- n)"
    by (simp add: fits_int32_def)
  then show ?thesis
    using False by (simp only: n_def if_False)
qed

lemma static_cast_int_roundf:
  fixes x :: rat
  assumes "- 2147483648 \<le> x" and "x \<le> 2147483647"
  shows "static_cast_int (roundf x) = (if 0 \<le> x then \<lfloor>x + 1 / 2\<rfloor> else - \<lfloor>- x + 1 / 2\<rfloor>)"
  using roundf_fits [OF assms]
  by (simp only: static_cast_int_def Let_def trunc_roundf if_True)

lemma roundf_nearest_half_away:
  fixes x :: rat
  assumes "- 2147483648 \<le> x" and "x \<le> 2147483647"
  shows "nearest_half_away x (static_cast_int (roundf x))"
proof (cases "0 \<le> x")
  case True
  define n where "n = \<lfloor>x + 1 / 2\<rfloor>"
  have "rat_of_int n \<le> x + 1 / 2" and "x + 1 / 2 < rat_of_int n + 1"
    unfolding n_def by linarith+
  with True have "\<bar>rat_of_int n - x\<bar> \<le> 1 / 2"
    and "\<bar>rat_of_int n - x\<bar> = 1 / 2 \<longrightarrow> \<bar>x\<bar> < \<bar>rat_of_int n\<bar>"
    by linarith+
  with True show ?thesis
    by (simp only: nearest_half_away_def static_cast_int_roundf [OF assms] n_def if_True)
next
  case False
  define n where "n = \<lfloor>- x + 1 / 2\<rfloor>"
  have "rat_of_int n \<le> - x + 1 / 2" and "- x + 1 / 2 < rat_of_int n + 1"
    unfolding n_def by linarith+
  with False have "\<bar>rat_of_int (- n) - x\<bar> \<le> 1 / 2"
    and "\<bar>rat_of_int (- n) - x\<bar> = 1 / 2 \<longrightarrow> \<bar>x\<bar> < \<bar>rat_of_int (- n)\<bar>"
    by (simp_all only: of_int_minus) linarith+
  with False show ?thesis
    by (simp only: nearest_half_away_def static_cast_int_roundf [OF assms] n_def if_False)
qed

text \<open>
  C6. In a snapshot written with spanning off, the record of a monitor has the top and left
  edge of the work-area rectangle reported to the DPI-unaware thread, and that rectangle's
  width and height by 32-bit subtraction of its edges: the difference of the edges
  wherever that difference is in the range of \<^verbatim>\<open>int\<close>. Its monitor width and height are
  the casts to \<^verbatim>\<open>int\<close> of the rounded values that \<^verbatim>\<open>DPIAware::Convert\<close> returns for
  this monitor and the full-bounds width and height (again by 32-bit subtraction); where
  a value returned is in the range of \<^verbatim>\<open>int\<close>, the field is the integer nearest to it,
  halfway cases going away from zero.
\<close>

theorem record_geometry:
  assumes "\<not> settings_spanZonesAcrossMonitors w" and "fst (Save w s) = True"
    and "i < length (allMonitors_of w)" and "dpi_ok w (allMonitors_of w ! i)"
  shows "(let r = written_monitors w s ! emitted_at w (allMonitors_of w) i;
              monitor = fst (allMonitors_of w ! i);
              work = rcWork (snd (allMonitors_of w ! i));
              full = rcMonitor (snd (allMonitors_of w ! i));
              converted = Convert w monitor
                (static_cast_float (int32 (right_rc full - left_rc full)),
                 static_cast_float (int32 (bottom_rc full - top_rc full)))
          in top_mi r = top_rc work
           \<and> left_mi r = left_rc work
           \<and> workAreaWidth r = int32 (right_rc work - left_rc work)
           \<and> workAreaHeight r = int32 (bottom_rc work - top_rc work)
           \<and> (fits_int32 (right_rc work - left_rc work) \<longrightarrow>
                workAreaWidth r = right_rc work - left_rc work)
           \<and> (fits_int32 (bottom_rc work - top_rc work) \<longrightarrow>
                workAreaHeight r = bottom_rc work - top_rc work)
           \<and> (fits_int32 (right_rc full - left_rc full) \<longrightarrow>
                int32 (right_rc full - left_rc full) = right_rc full - left_rc full)
           \<and> (fits_int32 (bottom_rc full - top_rc full) \<longrightarrow>
                int32 (bottom_rc full - top_rc full) = bottom_rc full - top_rc full)
           \<and> monitorWidth r = static_cast_int (roundf (fst converted))
           \<and> monitorHeight r = static_cast_int (roundf (snd converted))
           \<and> fits_int32 (workAreaWidth r) \<and> fits_int32 (workAreaHeight r)
           \<and> (- 2147483648 \<le> fst converted \<and> fst converted \<le> 2147483647 \<longrightarrow>
                nearest_half_away (fst converted) (monitorWidth r))
           \<and> (- 2147483648 \<le> snd converted \<and> snd converted \<le> 2147483647 \<longrightarrow>
                nearest_half_away (snd converted) (monitorHeight r)))"
  by (simp add: written_monitors_nth(1) [OF assms] record_at_def monitorJson_of_def Let_def
      roundf_nearest_half_away int32_fits fits_int32_int32)

lemma static_cast_float_1366: "static_cast_float 1366 = 1366"
  by code_simp

lemma static_cast_float_768: "static_cast_float 768 = 768"
  by code_simp

lemma int32_example:
  "int32 1366 = 1366" "int32 768 = 768" "int32 728 = 728"
  "fits_int32 1366" "fits_int32 768" "fits_int32 728"
  by (simp_all add: int32_def fits_int32_def)

theorem record_geometry_witness:
  "\<not> settings_spanZonesAcrossMonitors example_world
   \<and> fst (Save example_world example_sys) = True
   \<and> 2 < length (allMonitors_of example_world)
   \<and> dpi_ok example_world (allMonitors_of example_world ! 2)
   \<and> emitted_at example_world (allMonitors_of example_world) 2 = 2
   \<and> fits_int32 (0 - (- 1366)) \<and> fits_int32 (728 - 0) \<and> fits_int32 (768 - 0)
   \<and> Convert example_world 3 (static_cast_float (int32 (0 - (- 1366))),
                                static_cast_float (int32 (768 - 0))) = (3415 / 2, 960)
   \<and> (- 2147483648 :: rat) \<le> 3415 / 2 \<and> (3415 / 2 :: rat) \<le> 2147483647
   \<and> top_mi (written_monitors example_world example_sys ! 2) = 0
   \<and> left_mi (written_monitors example_world example_sys ! 2) = - 1366
   \<and> workAreaWidth (written_monitors example_world example_sys ! 2) = 1366
   \<and> workAreaHeight (written_monitors example_world example_sys ! 2) = 728
   \<and> nearest_half_away (3415 / 2) (monitorWidth (written_monitors example_world example_sys ! 2))
   \<and> nearest_half_away 960 (monitorHeight (written_monitors example_world example_sys ! 2))"
proof -
  have h1: "\<not> settings_spanZonesAcrossMonitors example_world"
    by (simp add: example_defs)
  have h2: "2 < length (allMonitors_of example_world)"
    "dpi_ok example_world (allMonitors_of example_world ! 2)"
    by (simp_all add: example_allMonitors example_dpi_ok) (simp_all add: example_monitors_def)
  have pos: "emitted_at example_world (allMonitors_of example_world) 2 = 2"
    by (simp add: emitted_at_def example_dpi_ok upt_rec)
  have conv: "Convert example_world 3 (1366, 768) = (3415 / 2, 960)"
    by (simp add: example_world_def example_dpi_def)
  show ?thesis
    using record_geometry [OF h1 example_Save_ok h2] h1 h2 pos
    by (simp add: example_Save_ok Let_def example_allMonitors example_monitors_def
        static_cast_float_1366 static_cast_float_768 conv int32_example
        roundf_nearest_half_away)
qed

subsection \<open>Spanned mode\<close>

lemma fold_union_rect:
  "left_rc (fold union_rect rs r) = fold min (map left_rc rs) (left_rc r)"
  "top_rc (fold union_rect rs r) = fold min (map top_rc rs) (top_rc r)"
  "right_rc (fold union_rect rs r) = fold max (map right_rc rs) (right_rc r)"
  "bottom_rc (fold union_rect rs r) = fold max (map bottom_rc rs) (bottom_rc r)"
  by (induction rs arbitrary: r) (simp_all add: union_rect_def min.commute max.commute)

lemma combined_rect_bounds:
  assumes "rs \<noteq> []"
  shows "left_rc (combined_rect rs) = Min (left_rc ` set rs)"
    and "top_rc (combined_rect rs) = Min (top_rc ` set rs)"
    and "right_rc (combined_rect rs) = Max (right_rc ` set rs)"
    and "bottom_rc (combined_rect rs) = Max (bottom_rc ` set rs)"
proof -
  from assms obtain r rs' where rs: "rs = r # rs'" by (cases rs) auto
  have img: "f ` set rs = set (f r # map f rs')" for f :: "RECT \<Rightarrow> int"
    by (simp add: rs)
  show "left_rc (combined_rect rs) = Min (left_rc ` set rs)"
    unfolding img by (simp only: Min.set_eq_fold) (simp add: rs fold_union_rect)
  show "top_rc (combined_rect rs) = Min (top_rc ` set rs)"
    unfolding img by (simp only: Min.set_eq_fold) (simp add: rs fold_union_rect)
  show "right_rc (combined_rect rs) = Max (right_rc ` set rs)"
    unfolding img by (simp only: Max.set_eq_fold) (simp add: rs fold_union_rect)
  show "bottom_rc (combined_rect rs) = Max (bottom_rc ` set rs)"
    unfolding img by (simp only: Max.set_eq_fold) (simp add: rs fold_union_rect)
qed

lemma Save_argsJson_spanned:
  assumes "settings_spanZonesAcrossMonitors w"
    and "GuidToString_GetCurrentVirtualDesktopId w = Some vd"
  shows "fst (Save_argsJson w s) =
     Some \<lparr>processId = GetCurrentProcessId w, spanZonesAcrossMonitors = True,
           monitors =
             [\<lparr>monitorName = MultiMonitorDeviceID w,
               virtualDesktop = vd,
               dpi = 0,
               top_mi = top_rc (combined_rect (work_rects w)),
               left_mi = left_rc (combined_rect (work_rects w)),
               workAreaWidth = int32 (right_rc (combined_rect (work_rects w)) - left_rc (combined_rect (work_rects w))),
               workAreaHeight = int32 (bottom_rc (combined_rect (work_rects w)) - top_rc (combined_rect (work_rects w))),
               monitorWidth = int32 (right_rc (combined_rect (full_rects w s)) - left_rc (combined_rect (full_rects w s))),
               monitorHeight = int32 (bottom_rc (combined_rect (full_rects w s)) - top_rc (combined_rect (full_rects w s))),
               isSelected = True\<rparr>]\<rparr>"
  using assms
  by (simp add: Save_argsJson_def Save_spanned_def GetAllMonitorsCombinedRect_def Let_def
      worker_unaware_mixed caller_ctx_kept work_rects_def full_rects_def record_enum_def)

text \<open>
  C3. A snapshot written in spanned mode has exactly one record: its name is the
  all-monitors marker, its virtual desktop the current one, it is selected and its DPI is 0.
  Where monitors are reported, its top and left are the least top and left edge of the work
  areas reported to the DPI-unaware thread; its work-area width and height are the 32-bit
  differences of the greatest right (bottom) edge and the least left (top) edge of these,
  and its monitor width and height the same over the full bounds reported to the calling
  thread. Each of the four is the difference itself wherever that difference is in the
  range of \<^verbatim>\<open>int\<close>.
\<close>

theorem spanned_record:
  assumes "settings_spanZonesAcrossMonitors w" and "fst (Save w s) = True"
  shows "\<exists>r. written_monitors w s = [r]
           \<and> monitorName r = MultiMonitorDeviceID w
           \<and> Some (virtualDesktop r) = GuidToString_GetCurrentVirtualDesktopId w
           \<and> isSelected r
           \<and> dpi r = 0
           \<and> (work_rects w \<noteq> [] \<longrightarrow>
                top_mi r = Min (top_rc ` set (work_rects w))
              \<and> left_mi r = Min (left_rc ` set (work_rects w))
              \<and> workAreaWidth r =
                  int32 (Max (right_rc ` set (work_rects w)) - Min (left_rc ` set (work_rects w)))
              \<and> workAreaHeight r =
                  int32 (Max (bottom_rc ` set (work_rects w)) - Min (top_rc ` set (work_rects w)))
              \<and> (fits_int32 (Max (right_rc ` set (work_rects w)) - Min (left_rc ` set (work_rects w))) \<longrightarrow>
                   workAreaWidth r =
                     Max (right_rc ` set (work_rects w)) - Min (left_rc ` set (work_rects w)))
              \<and> (fits_int32 (Max (bottom_rc ` set (work_rects w)) - Min (top_rc ` set (work_rects w))) \<longrightarrow>
                   workAreaHeight r =
                     Max (bottom_rc ` set (work_rects w)) - Min (top_rc ` set (work_rects w))))
           \<and> (full_rects w s \<noteq> [] \<longrightarrow>
                monitorWidth r =
                  int32 (Max (right_rc ` set (full_rects w s)) - Min (left_rc ` set (full_rects w s)))
              \<and> monitorHeight r =
                  int32 (Max (bottom_rc ` set (full_rects w s)) - Min (top_rc ` set (full_rects w s)))
              \<and> (fits_int32 (Max (right_rc ` set (full_rects w s)) - Min (left_rc ` set (full_rects w s))) \<longrightarrow>
                   monitorWidth r =
                     Max (right_rc ` set (full_rects w s)) - Min (left_rc ` set (full_rects w s)))
              \<and> (fits_int32 (Max (bottom_rc ` set (full_rects w s)) - Min (top_rc ` set (full_rects w s))) \<longrightarrow>
                   monitorHeight r =
                     Max (bottom_rc ` set (full_rects w s)) - Min (top_rc ` set (full_rects w s))))"
proof -
  from assms(2) obtain vd where vd: "GuidToString_GetCurrentVirtualDesktopId w = Some vd"
    using Save_argsJson_None_iff [of w s] by (auto simp: Save_fst)
  show ?thesis
    by (simp add: written_monitors_def Save_argsJson_spanned [OF assms(1) vd] vd
        combined_rect_bounds int32_fits)
qed

lemma example_spanned_rects:
  "work_rects example_world_spanned =
     [\<lparr>left_rc = 0, top_rc = 0, right_rc = 1920, bottom_rc = 1040\<rparr>,
      \<lparr>left_rc = 1920, top_rc = 0, right_rc = 3840, bottom_rc = 1040\<rparr>,
      \<lparr>left_rc = - 1366, top_rc = 0, right_rc = 0, bottom_rc = 728\<rparr>]"
  "full_rects example_world_spanned example_sys =
     [\<lparr>left_rc = 0, top_rc = 0, right_rc = 1920, bottom_rc = 1080\<rparr>,
      \<lparr>left_rc = 1920, top_rc = 0, right_rc = 3840, bottom_rc = 1080\<rparr>,
      \<lparr>left_rc = - 1366, top_rc = 0, right_rc = 0, bottom_rc = 768\<rparr>]"
  by (simp_all add: work_rects_def full_rects_def example_world_spanned_def example_world_def
      example_monitors_def)

theorem spanned_record_witness:
  "settings_spanZonesAcrossMonitors example_world_spanned
   \<and> fst (Save example_world_spanned example_sys) = True
   \<and> work_rects example_world_spanned \<noteq> []
   \<and> full_rects example_world_spanned example_sys \<noteq> []
   \<and> fits_int32 (Max (right_rc ` set (work_rects example_world_spanned))
                  - Min (left_rc ` set (work_rects example_world_spanned)))
   \<and> fits_int32 (Max (bottom_rc ` set (work_rects example_world_spanned))
                  - Min (top_rc ` set (work_rects example_world_spanned)))
   \<and> fits_int32 (Max (right_rc ` set (full_rects example_world_spanned example_sys))
                  - Min (left_rc ` set (full_rects example_world_spanned example_sys)))
   \<and> fits_int32 (Max (bottom_rc ` set (full_rects example_world_spanned example_sys))
                  - Min (top_rc ` set (full_rects example_world_spanned example_sys)))
   \<and> map (\<lambda>r. (monitorName r, isSelected r, dpi r, top_mi r, left_mi r, workAreaWidth r,
                 workAreaHeight r, monitorWidth r, monitorHeight r))
        (written_monitors example_world_spanned example_sys)
       = [(''FancyZones#MultiMonitorDevice'', True, 0, 0, - 1366, 5206, 1040, 5206, 1080)]"
proof -
  have h1: "settings_spanZonesAcrossMonitors example_world_spanned"
    by (simp add: example_world_spanned_def)
  have h2: "fst (Save example_world_spanned example_sys) = True"
    by (simp add: Save_fst Save_argsJson_None_iff example_world_spanned_def example_world_def)
  have name: "MultiMonitorDeviceID example_world_spanned = ''FancyZones#MultiMonitorDevice''"
    by (simp add: example_world_spanned_def example_world_def)
  have fits: "fits_int32 5206" "fits_int32 1040" "fits_int32 1080"
    by (simp_all add: fits_int32_def)
  show ?thesis
    using spanned_record [OF h1 h2] h1 h2 fits
    by (auto simp: example_spanned_rects name)
qed

subsection \<open>The threads that enumerate\<close>

lemma Save_enum_trace:
  "enum_trace (snd (Save w s)) =
     enum_trace s @
     (if GuidToString_GetCurrentVirtualDesktopId w = None then []
      else if settings_spanZonesAcrossMonitors w
      then [\<lparr>ev_fn = GetAllMonitorsCombinedRect_rcWork, ev_thread = dpiUnawareThread, ev_dpi = unaware_mixed\<rparr>,
            \<lparr>ev_fn = GetAllMonitorsCombinedRect_rcMonitor, ev_thread = callerThread,
             ev_dpi = thread_ctx s callerThread\<rparr>]
      else [\<lparr>ev_fn = GetAllMonitorInfo_rcWork, ev_thread = dpiUnawareThread, ev_dpi = unaware_mixed\<rparr>])"
  by (simp add: Save_def Save_argsJson_def Save_spanned_def GetAllMonitorInfo_def
      GetAllMonitorsCombinedRect_def Logger_error_def record_enum_def to_file_def
      SetThreadDpiHostingBehavior_def SetThreadDpiAwarenessContext_def unaware_mixed_def Let_def
      split: option.splits prod.splits)

lemma Save_caller_ctx:
  "thread_ctx (snd (Save w s)) callerThread = thread_ctx s callerThread"
  by (simp add: Save_def Save_argsJson_def Save_spanned_def GetAllMonitorInfo_def
      GetAllMonitorsCombinedRect_def Logger_error_def record_enum_def to_file_def
      SetThreadDpiHostingBehavior_def SetThreadDpiAwarenessContext_def Let_def
      split: option.splits prod.splits)

text \<open>
  C9, as amended. The enumerations of one call are: with spanning off, the enumeration of
  the monitors, run on the executor's thread after that thread was switched to DPI-unaware,
  mixed-hosting mode; in spanned mode, the combined work-area computation, run the same way,
  followed by the combined full-bounds computation, run on the calling thread in the
  calling thread's own DPI context. Each runs to completion before \<open>Save\<close> goes on, and the
  DPI context of the calling thread is left as it was.
\<close>

theorem enumeration_contexts:
  "new_events w s =
     (if GuidToString_GetCurrentVirtualDesktopId w = None then []
      else if settings_spanZonesAcrossMonitors w
      then [\<lparr>ev_fn = GetAllMonitorsCombinedRect_rcWork, ev_thread = dpiUnawareThread, ev_dpi = unaware_mixed\<rparr>,
            \<lparr>ev_fn = GetAllMonitorsCombinedRect_rcMonitor, ev_thread = callerThread,
             ev_dpi = thread_ctx s callerThread\<rparr>]
      else [\<lparr>ev_fn = GetAllMonitorInfo_rcWork, ev_thread = dpiUnawareThread, ev_dpi = unaware_mixed\<rparr>])
   \<and> (\<forall>e\<in>set (new_events w s).
         if ev_fn e = GetAllMonitorsCombinedRect_rcMonitor
         then ev_thread e = callerThread \<and> ev_dpi e = thread_ctx s callerThread
         else ev_thread e = dpiUnawareThread \<and> ev_dpi e = unaware_mixed)
   \<and> thread_ctx (snd (Save w s)) callerThread = thread_ctx s callerThread"
  by (simp add: new_events_def Save_enum_trace Save_caller_ctx)

theorem enumeration_contexts_witness:
  "new_events example_world example_sys =
     [\<lparr>ev_fn = GetAllMonitorInfo_rcWork, ev_thread = dpiUnawareThread, ev_dpi = unaware_mixed\<rparr>]
   \<and> new_events example_world_spanned example_sys =
     [\<lparr>ev_fn = GetAllMonitorsCombinedRect_rcWork, ev_thread = dpiUnawareThread, ev_dpi = unaware_mixed\<rparr>,
      \<lparr>ev_fn = GetAllMonitorsCombinedRect_rcMonitor, ev_thread = callerThread,
       ev_dpi = \<lparr>awareness = DPI_AWARENESS_CONTEXT_PER_MONITOR_AWARE_V2,
                 hosting = DPI_HOSTING_BEHAVIOR_DEFAULT\<rparr>\<rparr>]"
  using enumeration_contexts [of example_world example_sys]
    enumeration_contexts [of example_world_spanned example_sys]
  by (simp add: example_world_spanned_def example_world_def example_sys_def)

text \<open>
  C9 as stated fails: in spanned mode the combined full-bounds computation runs on the
  calling thread, here per-monitor aware with default hosting, not on the executor's
  DPI-unaware thread.
\<close>

theorem all_enumerations_unaware_counterexample:
  "settings_spanZonesAcrossMonitors example_world_spanned
   \<and> fst (Save example_world_spanned example_sys) = True
   \<and> ev_fn (last (new_events example_world_spanned example_sys)) = GetAllMonitorsCombinedRect_rcMonitor
   \<and> ev_thread (last (new_events example_world_spanned example_sys)) \<noteq> dpiUnawareThread
   \<and> awareness (ev_dpi (last (new_events example_world_spanned example_sys)))
       \<noteq> DPI_AWARENESS_CONTEXT_UNAWARE
   \<and> hosting (ev_dpi (last (new_events example_world_spanned example_sys)))
       \<noteq> DPI_HOSTING_BEHAVIOR_MIXED"
proof -
  have "fst (Save example_world_spanned example_sys) = True"
    by (simp add: Save_fst Save_argsJson_None_iff example_world_spanned_def example_world_def)
  then show ?thesis
    by (simp add: new_events_def Save_enum_trace example_world_spanned_def example_world_def
        example_sys_def)
qed

subsection \<open>Two calls in a row\<close>

lemma Save_loop_processId:
  "Save_loop (w\<lparr>GetCurrentProcessId := p\<rparr>) vd tgt ms st = Save_loop w vd tgt ms st"
proof -
  have rec_eq: "monitorJson_of (w\<lparr>GetCurrentProcessId := p\<rparr>) = monitorJson_of w"
    by (intro ext) (simp add: monitorJson_of_def)
  have dev_eq: "GetDisplayDeviceId (w\<lparr>GetCurrentProcessId := p\<rparr>) = GetDisplayDeviceId w"
    by (intro ext) (simp add: GetDisplayDeviceId_def disambiguate_def Let_def)
  have "Save_monitor (w\<lparr>GetCurrentProcessId := p\<rparr>) vd tgt = Save_monitor w vd tgt"
    by (intro ext) (simp add: Save_monitor_def rec_eq dev_eq split: prod.splits)
  then show ?thesis by (simp add: Save_loop_def)
qed

lemma Save_argsJson_processId:
  assumes "thread_ctx s' callerThread = thread_ctx s callerThread"
  shows "fst (Save_argsJson (w\<lparr>GetCurrentProcessId := p\<rparr>) s') =
         map_option (\<lambda>a. a\<lparr>processId := p\<rparr>) (fst (Save_argsJson w s))"
  using assms
  by (simp add: Save_argsJson_def Save_spanned_def GetAllMonitorInfo_def
      GetAllMonitorsCombinedRect_def Let_def worker_unaware_mixed caller_ctx_kept
      record_enum_def Save_loop_processId select_targetMonitor_def
      split: option.splits prod.splits)

lemma EditorArgs_ToJson_processId:
  "EditorArgs_ToJson (a\<lparr>processId := p\<rparr>) = with_process_id p (EditorArgs_ToJson a)"
  by (simp add: EditorArgs_ToJson_def SetNamedValue_def ProcessId_def
      SpanZonesAcrossMonitors_def Monitors_def)

lemma with_process_id_same:
  "with_process_id (processId a) (EditorArgs_ToJson a) = EditorArgs_ToJson a"
  by (simp add: EditorArgs_ToJson_def SetNamedValue_def ProcessId_def
      SpanZonesAcrossMonitors_def Monitors_def)

lemma Save_argsJson_processId_field:
  "fst (Save_argsJson w s) = Some a \<Longrightarrow> processId a = GetCurrentProcessId w"
  by (auto simp: Save_argsJson_def Save_spanned_def GetAllMonitorInfo_def
      GetAllMonitorsCombinedRect_def Let_def split: option.splits prod.splits if_splits)

lemma fileName_processId: "fileName (w\<lparr>GetCurrentProcessId := p\<rparr>) = fileName w"
  by (simp add: fileName_def)

lemma Save_files:
  "files (snd (Save w s)) =
     (case fst (Save_argsJson w s) of
        None \<Rightarrow> files s
      | Some a \<Rightarrow> (files s)(fileName w \<mapsto> EditorArgs_ToJson a))"
  by (simp add: Save_snd to_file_def Save_argsJson_files split: option.splits)

text \<open>
  C7. Two calls in a row, every collaborator answering the second call as it answered the
  first, except possibly for the process id (the settings, the virtual-desktop id, the
  monitors reported, their DPI, the pointer position and the foreground window are those of
  the first call). The second call returns what the first returned. Where the first call
  wrote the parameter file, the second writes the same JSON value with only the process-id
  member set anew; with the same process id the files are exactly as the first call left
  them. Where the first call failed, neither call writes a file.
\<close>

theorem Save_twice:
  "fst (Save (w\<lparr>GetCurrentProcessId := p\<rparr>) (snd (Save w s))) = fst (Save w s)
   \<and> (fst (Save w s) = True \<longrightarrow>
        (\<exists>j. files (snd (Save w s)) (fileName w) = Some j \<and>
           files (snd (Save (w\<lparr>GetCurrentProcessId := p\<rparr>) (snd (Save w s)))) =
             (files (snd (Save w s)))(fileName w \<mapsto> with_process_id p j)))
   \<and> (fst (Save w s) = False \<longrightarrow>
        files (snd (Save (w\<lparr>GetCurrentProcessId := p\<rparr>) (snd (Save w s)))) = files s)
   \<and> (p = GetCurrentProcessId w \<longrightarrow>
        files (snd (Save (w\<lparr>GetCurrentProcessId := p\<rparr>) (snd (Save w s)))) = files (snd (Save w s)))"
proof -
  let ?w' = "w\<lparr>GetCurrentProcessId := p\<rparr>"
  let ?s1 = "snd (Save w s)"
  have args: "fst (Save_argsJson ?w' ?s1) = map_option (\<lambda>a. a\<lparr>processId := p\<rparr>) (fst (Save_argsJson w s))"
    by (rule Save_argsJson_processId) (rule Save_caller_ctx)
  have ret: "fst (Save ?w' ?s1) = fst (Save w s)"
    by (simp add: Save_fst args)
  have files2: "files (snd (Save ?w' ?s1)) =
     (case fst (Save_argsJson w s) of
        None \<Rightarrow> files ?s1
      | Some a \<Rightarrow> (files ?s1)(fileName w \<mapsto> with_process_id p (EditorArgs_ToJson a)))"
    by (simp add: Save_files [of ?w' ?s1] args fileName_processId EditorArgs_ToJson_processId
        split: option.splits)
  have ok: "fst (Save w s) = True \<longrightarrow>
        (\<exists>j. files ?s1 (fileName w) = Some j \<and>
           files (snd (Save ?w' ?s1)) = (files ?s1)(fileName w \<mapsto> with_process_id p j))"
    by (auto simp: files2 Save_fst Save_files [of w s])
  have failing: "fst (Save w s) = False \<longrightarrow> files (snd (Save ?w' ?s1)) = files s"
    by (auto simp: files2 Save_fst Save_files [of w s])
  have same: "p = GetCurrentProcessId w \<longrightarrow> files (snd (Save ?w' ?s1)) = files ?s1"
  proof
    assume p: "p = GetCurrentProcessId w"
    show "files (snd (Save ?w' ?s1)) = files ?s1"
    proof (cases "fst (Save_argsJson w s)")
      case None
      show ?thesis unfolding files2 by (simp add: None)
    next
      case (Some a)
      have "with_process_id p (EditorArgs_ToJson a) = EditorArgs_ToJson a"
        using Save_argsJson_processId_field [OF Some] with_process_id_same [of a] p by simp
      then show ?thesis unfolding files2 by (simp add: Some Save_files [of w s])
    qed
  qed
  from ret ok failing same show ?thesis by blast
qed

theorem Save_twice_witness:
  "fst (Save example_world example_sys) = True
   \<and> fst (Save example_world (snd (Save example_world example_sys))) = True
   \<and> files (snd (Save example_world (snd (Save example_world example_sys))))
       = files (snd (Save example_world example_sys))
   \<and> fst (Save (example_world\<lparr>GetCurrentProcessId := 77\<rparr>) (snd (Save example_world example_sys))) = True
   \<and> fst (Save (example_world\<lparr>GuidToString_GetCurrentVirtualDesktopId := None\<rparr>) example_sys) = False
   \<and> files (snd (Save (example_world\<lparr>GuidToString_GetCurrentVirtualDesktopId := None\<rparr>)
        (snd (Save (example_world\<lparr>GuidToString_GetCurrentVirtualDesktopId := None\<rparr>) example_sys))))
       = Map.empty"
proof -
  have pid: "example_world\<lparr>GetCurrentProcessId := 4242\<rparr> = example_world"
    by (simp add: example_world_def)
  have pid': "example_world\<lparr>GuidToString_GetCurrentVirtualDesktopId := None, GetCurrentProcessId := 4242\<rparr>
      = example_world\<lparr>GuidToString_GetCurrentVirtualDesktopId := None\<rparr>"
    by (simp add: example_world_def)
  have bad: "fst (Save (example_world\<lparr>GuidToString_GetCurrentVirtualDesktopId := None\<rparr>) example_sys) = False"
    by (simp add: Save_fst Save_argsJson_None_iff)
  show ?thesis
    using Save_twice [where w = example_world and p = 4242 and s = example_sys]
      Save_twice [where w = example_world and p = 77 and s = example_sys]
      Save_twice [where w = "example_world\<lparr>GuidToString_GetCurrentVirtualDesktopId := None\<rparr>"
        and p = 4242 and s = example_sys]
      bad
    by (simp add: pid pid' example_Save_ok) (simp add: example_world_def example_sys_def)
qed

subsection \<open>No monitor enumerated\<close>

lemma select_targetMonitor_enum:
  "select_targetMonitor (w\<lparr>EnumDisplayMonitors := e\<rparr>) = select_targetMonitor w"
  by (simp add: select_targetMonitor_def)

text \<open>
  C8. With spanning off and no monitor enumerated, \<open>Save\<close> fails only for the reasons it
  fails for otherwise (no virtual-desktop id, no target monitor): the value it returns is
  the same for every enumeration. When it succeeds, the record written has an empty
  monitors list.
\<close>

theorem no_monitors:
  assumes "\<not> settings_spanZonesAcrossMonitors w" and "allMonitors_of w = []"
  shows "fst (Save w s) =
           (GuidToString_GetCurrentVirtualDesktopId w \<noteq> None \<and> select_targetMonitor w \<noteq> 0)
       \<and> (fst (Save w s) = True \<longrightarrow>
            written_monitors w s = [] \<and>
            files (snd (Save w s)) (fileName w) =
              Some (JsonObject [(ProcessId, JsonNumber (uint (GetCurrentProcessId w))),
                                (SpanZonesAcrossMonitors, JsonBoolean False),
                                (Monitors, JsonArray [])]))
       \<and> fst (Save (w\<lparr>EnumDisplayMonitors := e\<rparr>) s) = fst (Save w s)"
proof -
  have ret: "fst (Save w s) =
           (GuidToString_GetCurrentVirtualDesktopId w \<noteq> None \<and> select_targetMonitor w \<noteq> 0)"
    using assms(1) Save_argsJson_None_iff [of w s] by (auto simp: Save_fst)
  have built: "written_monitors w s = [] \<and>
            files (snd (Save w s)) (fileName w) =
              Some (JsonObject [(ProcessId, JsonNumber (uint (GetCurrentProcessId w))),
                                (SpanZonesAcrossMonitors, JsonBoolean False),
                                (Monitors, JsonArray [])])"
    if ok: "fst (Save w s) = True"
  proof -
    from ok ret obtain vd where vd: "GuidToString_GetCurrentVirtualDesktopId w = Some vd"
      and tgt: "select_targetMonitor w \<noteq> 0" by auto
    show ?thesis
      by (simp add: written_monitors_def Save_files Save_argsJson_not_spanned [OF assms(1) vd tgt]
          assms(2) EditorArgs_ToJson_def SetNamedValue_def ProcessId_def
          SpanZonesAcrossMonitors_def Monitors_def)
  qed
  have "fst (Save (w\<lparr>EnumDisplayMonitors := e\<rparr>) s) = fst (Save w s)"
    using Save_argsJson_None_iff [of w s] Save_argsJson_None_iff [of "w\<lparr>EnumDisplayMonitors := e\<rparr>" s]
    by (auto simp: Save_fst select_targetMonitor_enum)
  with ret built show ?thesis by blast
qed

theorem no_monitors_witness:
  "\<not> settings_spanZonesAcrossMonitors example_world_no_monitors
   \<and> allMonitors_of example_world_no_monitors = []
   \<and> fst (Save example_world_no_monitors example_sys) = True
   \<and> written_monitors example_world_no_monitors example_sys = []
   \<and> files (snd (Save example_world_no_monitors example_sys)) (fileName example_world_no_monitors) =
       Some (JsonObject [(''process-id'', JsonNumber 4242),
                         (''span-zones-across-monitors'', JsonBoolean False),
                         (''monitors'', JsonArray [])])"
proof -
  have h1: "\<not> settings_spanZonesAcrossMonitors example_world_no_monitors"
    by (simp add: example_world_no_monitors_def example_world_def)
  have h2: "allMonitors_of example_world_no_monitors = []"
    by (simp add: allMonitors_of_def example_world_no_monitors_def)
  have h3: "GuidToString_GetCurrentVirtualDesktopId example_world_no_monitors \<noteq> None"
    "select_targetMonitor example_world_no_monitors \<noteq> 0"
    "GetCurrentProcessId example_world_no_monitors = 4242"
    by (simp_all add: select_targetMonitor_def example_world_no_monitors_def example_world_def)
  show ?thesis
    using no_monitors [OF h1 h2, of example_sys] h1 h2 h3
    by (simp add: ProcessId_def SpanZonesAcrossMonitors_def Monitors_def)
qed

subsection \<open>Device names\<close>

lemma monitorName_record_at:
  "monitorName (record_at w vd tgt ms i) = TrimDeviceId w (device_id_at w ms i)"
  by (simp add: record_at_def monitorJson_of_def device_id_at_def Let_def)





lemma example_prior:
  "prior example_monitors 0 = 0" "prior example_monitors 1 = 1" "prior example_monitors 2 = 2"
  by (simp_all add: prior_def example_monitors_def take_Suc_conv_app_nth numeral_2_eq_2)



lemma replicate_2: "replicate 2 c = [c, c]"
  by (simp add: numeral_2_eq_2)

lemma example_szDevice:
  "szDevice (snd (example_monitors ! 0)) = ''DISPLAY1''"
  "szDevice (snd (example_monitors ! 1)) = ''DISPLAY1''"
  "szDevice (snd (example_monitors ! 2)) = ''DISPLAY1''"
  by (simp_all add: example_monitors_def)








lemma example_indices: "[0..<length example_monitors] = [0, 1, 2]"
  by (simp add: example_monitors_def upt_rec)

lemma second_dpi_fails_names:
  "distinct_suffixes example_world_second_dpi_fails"
  "TrimDeviceId example_world_second_dpi_fails = (\<lambda>deviceId. deviceId)"
  "index_suffix example_world_second_dpi_fails = (\<lambda>n. CHR ''-'' # replicate n CHR ''i'')"
  "emitted_at example_world_second_dpi_fails example_monitors 0 = 0"
  "emitted_at example_world_second_dpi_fails example_monitors 2 = 1"
proof -
  have "replicate m CHR ''i'' \<noteq> replicate n CHR ''i''" if "m \<noteq> n" for m n :: nat
    using that by (metis length_replicate)
  then show "distinct_suffixes example_world_second_dpi_fails"
    by (simp add: distinct_suffixes_def example_world_second_dpi_fails_def example_world_def)
  show "TrimDeviceId example_world_second_dpi_fails = (\<lambda>deviceId. deviceId)"
    "index_suffix example_world_second_dpi_fails = (\<lambda>n. CHR ''-'' # replicate n CHR ''i'')"
    by (simp_all add: example_world_second_dpi_fails_def example_world_def)
  show "emitted_at example_world_second_dpi_fails example_monitors 0 = 0"
    "emitted_at example_world_second_dpi_fails example_monitors 2 = 1"
    by (simp_all add: emitted_at_def second_dpi_fails_facts upt_rec numeral_2_eq_2)
       (simp_all add: example_monitors_def)
qed

lemma example_skipped_names:
  "map monitorName (written_monitors example_world_second_dpi_fails example_sys) =
     [''DISPLAY1'', ''DISPLAY1-ii'']"
proof -
  have h1: "\<not> settings_spanZonesAcrossMonitors example_world_second_dpi_fails"
    by (simp add: second_dpi_fails_facts)
  have nth: "fst (example_monitors ! 0) = 1" "fst (example_monitors ! Suc 0) = 2"
    "fst (example_monitors ! 2) = 3"
    by (simp_all add: example_monitors_def)
  show ?thesis
    by (simp add: written_monitors_not_spanned [OF h1 second_dpi_fails_facts(2)]
        second_dpi_fails_facts example_indices nth monitorName_record_at device_id_at_def
        disambiguate_def example_prior example_szDevice second_dpi_fails_names replicate_2)
qed

text \<open>
  C10. One pass of the loop raises the occurrence count of the monitor's device name by one
  whether or not the DPI query succeeds, so after the loop the count of a device name is
  the number of all enumerated monitors with that name. The name written for a monitor is
  the trimmed device id for its occurrence number among all monitors enumerated before it,
  skipped ones included. Hence the indices of the names written can have gaps: a desktop
  exists where the names written are the trimmed base name and the trimmed base name with
  the suffix of index 2, and none with index 1.
\<close>

theorem count_advances_before_dpi_query:
  "occurrence_count (fst (Save_monitor w vd tgt m st)) (szDevice (snd m)) =
     Suc (occurrence_count (fst st) (szDevice (snd m)))
   \<and> occurrence_count (fst (Save_loop w vd tgt ms (Map.empty, []))) dev =
       length (filter (\<lambda>m. szDevice (snd m) = dev) ms)
   \<and> (\<not> settings_spanZonesAcrossMonitors w \<and> fst (Save w s) = True
        \<and> i < length (allMonitors_of w) \<and> dpi_ok w (allMonitors_of w ! i) \<longrightarrow>
        monitorName (written_monitors w s ! emitted_at w (allMonitors_of w) i) =
          TrimDeviceId w (disambiguate w (szDevice (snd (allMonitors_of w ! i)))
                            (prior (allMonitors_of w) i)))
   \<and> (\<exists>w' s'. \<not> settings_spanZonesAcrossMonitors w' \<and> fst (Save w' s') = True
        \<and> distinct_suffixes w'
        \<and> map monitorName (written_monitors w' s') =
            [TrimDeviceId w' ''DISPLAY1'', TrimDeviceId w' (''DISPLAY1'' @ index_suffix w' 2)])"
proof -
  have step: "occurrence_count (fst (Save_monitor w vd tgt m st)) (szDevice (snd m)) =
     Suc (occurrence_count (fst st) (szDevice (snd m)))"
    by (simp add: Save_monitor_count)
  have total: "occurrence_count (fst (Save_loop w vd tgt ms (Map.empty, []))) dev =
       length (filter (\<lambda>m. szDevice (snd m) = dev) ms)"
    by (rule Save_loop_count)
  have name: "monitorName (written_monitors w s ! emitted_at w (allMonitors_of w) i) =
          TrimDeviceId w (disambiguate w (szDevice (snd (allMonitors_of w ! i)))
                            (prior (allMonitors_of w) i))"
    if "\<not> settings_spanZonesAcrossMonitors w" "fst (Save w s) = True"
      "i < length (allMonitors_of w)" "dpi_ok w (allMonitors_of w ! i)"
    by (simp add: written_monitors_nth(1) [OF that] monitorName_record_at device_id_at_def)
  have "\<not> settings_spanZonesAcrossMonitors example_world_second_dpi_fails
        \<and> fst (Save example_world_second_dpi_fails example_sys) = True
        \<and> distinct_suffixes example_world_second_dpi_fails
        \<and> map monitorName (written_monitors example_world_second_dpi_fails example_sys) =
            [TrimDeviceId example_world_second_dpi_fails ''DISPLAY1'',
             TrimDeviceId example_world_second_dpi_fails
               (''DISPLAY1'' @ index_suffix example_world_second_dpi_fails 2)]"
    by (simp add: second_dpi_fails_facts second_dpi_fails_names example_skipped_names replicate_2)
  then have gap: "\<exists>w' s'. \<not> settings_spanZonesAcrossMonitors w' \<and> fst (Save w' s') = True
        \<and> distinct_suffixes w'
        \<and> map monitorName (written_monitors w' s') =
            [TrimDeviceId w' ''DISPLAY1'', TrimDeviceId w' (''DISPLAY1'' @ index_suffix w' 2)]"
    by (intro exI)
  show ?thesis
  proof (intro conjI impI)
    show "occurrence_count (fst (Save_monitor w vd tgt m st)) (szDevice (snd m)) =
          Suc (occurrence_count (fst st) (szDevice (snd m)))"
      by (rule step)
    show "occurrence_count (fst (Save_loop w vd tgt ms (Map.empty, []))) dev =
          length (filter (\<lambda>m. szDevice (snd m) = dev) ms)"
      by (rule total)
    show "monitorName (written_monitors w s ! emitted_at w (allMonitors_of w) i) =
          TrimDeviceId w (disambiguate w (szDevice (snd (allMonitors_of w ! i)))
                            (prior (allMonitors_of w) i))"
      if "\<not> settings_spanZonesAcrossMonitors w \<and> fst (Save w s) = True
          \<and> i < length (allMonitors_of w) \<and> dpi_ok w (allMonitors_of w ! i)"
      using that name by simp
    show "\<exists>w' s'. \<not> settings_spanZonesAcrossMonitors w' \<and> fst (Save w' s') = True
        \<and> distinct_suffixes w'
        \<and> map monitorName (written_monitors w' s') =
            [TrimDeviceId w' ''DISPLAY1'', TrimDeviceId w' (''DISPLAY1'' @ index_suffix w' 2)]"
      by (rule gap)
  qed
qed

theorem count_advances_before_dpi_query_witness:
  "\<not> settings_spanZonesAcrossMonitors example_world_second_dpi_fails
   \<and> fst (Save example_world_second_dpi_fails example_sys) = True
   \<and> 2 < length (allMonitors_of example_world_second_dpi_fails)
   \<and> \<not> dpi_ok example_world_second_dpi_fails (allMonitors_of example_world_second_dpi_fails ! 1)
   \<and> dpi_ok example_world_second_dpi_fails (allMonitors_of example_world_second_dpi_fails ! 2)
   \<and> emitted_at example_world_second_dpi_fails (allMonitors_of example_world_second_dpi_fails) 2 = 1
   \<and> monitorName (written_monitors example_world_second_dpi_fails example_sys ! 1) = ''DISPLAY1-ii''"
proof -
  have h1: "\<not> settings_spanZonesAcrossMonitors example_world_second_dpi_fails"
    by (simp add: second_dpi_fails_facts)
  have h2: "2 < length (allMonitors_of example_world_second_dpi_fails)"
    "\<not> dpi_ok example_world_second_dpi_fails (allMonitors_of example_world_second_dpi_fails ! 1)"
    "dpi_ok example_world_second_dpi_fails (allMonitors_of example_world_second_dpi_fails ! 2)"
    by (simp_all add: second_dpi_fails_facts) (simp_all add: example_monitors_def)
  show ?thesis
    using count_advances_before_dpi_query
      [where w = example_world_second_dpi_fails and s = example_sys and i = 2, THEN conjunct2,
        THEN conjunct2, THEN conjunct1]
      h1 h2 second_dpi_fails_facts(2)
    by (simp add: second_dpi_fails_facts second_dpi_fails_names example_prior example_szDevice
        disambiguate_def replicate_2)
qed

end
